theory Spec2Isabelle
  imports Complex_Main "HOL-Library.Sublist" "HOL-Library.AList"
begin

section \<open>Text and number rendering\<close>

text \<open>
  Python strings are modelled as \<^typ>\<open>string\<close>; one list element stands for one character of
  the Python \<^verbatim>\<open>str\<close>, so \<^const>\<open>length\<close> is \<^verbatim>\<open>len\<close> and \<^const>\<open>take\<close> is a slice
  \<^verbatim>\<open>s[:n]\<close>. The alphabet of the model is the 256 characters of \<^typ>\<open>char\<close>.
\<close>

definition digit_char :: "nat \<Rightarrow> char" where
  "digit_char d = ''0123456789'' ! d"

text \<open>\<^verbatim>\<open>str(n)\<close> for a non-negative integer: decimal digits, most significant first.\<close>

fun str_nat :: "nat \<Rightarrow> string" where
  "str_nat n = (if n < 10 then [digit_char n] else str_nat (n div 10) @ [digit_char (n mod 10)])"

declare str_nat.simps [simp del]

text \<open>\<^verbatim>\<open>str(i)\<close> for a Python integer, as an f-string renders \<^verbatim>\<open>{i}\<close>.\<close>

definition str_int :: "int \<Rightarrow> string" where
  "str_int i = (if i < 0 then ''-'' @ str_nat (nat (- i)) else str_nat (nat i))"

text \<open>\<^verbatim>\<open>int(x)\<close> on a float: truncation towards zero.\<close>

definition py_int :: "real \<Rightarrow> int" where
  "py_int x = (if 0 \<le> x then \<lfloor>x\<rfloor> else \<lceil>x\<rceil>)"

section \<open>Session state\<close>

text \<open>
  One entry of \<^verbatim>\<open>st.session_state.conversation_history\<close>: the dictionary literal built by
  the Save Context button, with its keys \<^verbatim>\<open>file\<close>, \<^verbatim>\<open>content\<close>, \<^verbatim>\<open>timestamp\<close> and
  \<^verbatim>\<open>size\<close> (the field names carry the prefix \<open>entry_\<close>).
\<close>

record saved_context =
  entry_file :: "string option"
  entry_content :: string
  entry_timestamp :: string
  entry_size :: string

text \<open>
  \<^verbatim>\<open>st.session_state\<close> with the seven keys initialised at the top of the script. The saved
  contexts are a Python dictionary, which keeps insertion order: an association list with
  \<^const>\<open>AList.update\<close> for item assignment (replace in place, or append) and
  \<^const>\<open>AList.delete\<close> for \<^verbatim>\<open>del\<close>. Clock readings of \<^verbatim>\<open>time.time()\<close> are seconds as
  real numbers: the arithmetic on them is exact in the model.
\<close>

record session_state =
  conversation_history :: "(string \<times> saved_context) list"
  current_context :: string
  current_file_name :: "string option"
  api_key :: "string option"
  generation_count :: nat
  last_request_time :: real
  quota_reset_time :: "real option"

definition initial_state :: session_state where
  "initial_state =
     \<lparr>conversation_history = [], current_context = [], current_file_name = None,
      api_key = None, generation_count = 0, last_request_time = 0, quota_reset_time = None\<rparr>"

section \<open>Rate limiting\<close>

text \<open>
  The truth value Python gives \<^verbatim>\<open>st.session_state.quota_reset_time\<close> in a condition:
  \<^verbatim>\<open>None\<close> is false, and so is the float \<^verbatim>\<open>0.0\<close>.
\<close>

definition truthy_time :: "real option \<Rightarrow> bool" where
  "truthy_time q = (case q of None \<Rightarrow> False | Some t \<Rightarrow> t \<noteq> 0)"

text \<open>The value read from \<^verbatim>\<open>quota_reset_time\<close> once the condition has found it truthy.\<close>

definition reset_value :: "real option \<Rightarrow> real" where
  "reset_value q = (case q of None \<Rightarrow> 0 | Some t \<Rightarrow> t)"

text \<open>
  \<^verbatim>\<open>check_quota_limits()\<close>, with the reading of \<^verbatim>\<open>time.time()\<close> as the argument
  \<open>current_time\<close>. It returns the pair \<^verbatim>\<open>(can_proceed, message)\<close> and the session state it
  leaves behind: the second \<^verbatim>\<open>if\<close> of the source assigns \<^verbatim>\<open>quota_reset_time = None\<close>.
\<close>

definition check_quota_limits ::
  "real \<Rightarrow> session_state \<Rightarrow> (bool \<times> string option) \<times> session_state" where
  "check_quota_limits current_time s =
     (if truthy_time (quota_reset_time s) \<and> current_time < reset_value (quota_reset_time s) then
        (let remaining = reset_value (quota_reset_time s) - current_time
         in ((False, Some (''Rate limited. Wait '' @ str_int (py_int remaining) @ ''s.'')), s))
      else
        (let s1 = (if truthy_time (quota_reset_time s)
                      \<and> current_time \<ge> reset_value (quota_reset_time s)
                   then s\<lparr>quota_reset_time := None\<rparr> else s)
         in if current_time - last_request_time s1 < 3 then
              (let wait_time = 3 - (current_time - last_request_time s1)
               in ((False, Some (''Wait '' @ str_int (py_int wait_time) @ ''s before next request.'')),
                   s1))
            else ((True, None), s1)))"

text \<open>
  A lockout is active at \<open>current_time\<close> when the first condition of
  \<^const>\<open>check_quota_limits\<close> holds.
\<close>

definition lockout_active :: "session_state \<Rightarrow> real \<Rightarrow> bool" where
  "lockout_active s current_time =
     (truthy_time (quota_reset_time s) \<and> current_time < reset_value (quota_reset_time s))"

text \<open>
  The assignment \<^verbatim>\<open>st.session_state.quota_reset_time = time.time() + 120\<close> of the quota
  branch of \<^verbatim>\<open>generate_questions\<close>, with the clock reading \<open>t\<close>.
\<close>

definition record_lockout :: "real \<Rightarrow> session_state \<Rightarrow> session_state" where
  "record_lockout t s = s\<lparr>quota_reset_time := Some (t + 120)\<rparr>"

text \<open>The assignment \<^verbatim>\<open>st.session_state.last_request_time = time.time()\<close>.\<close>

definition record_request :: "real \<Rightarrow> session_state \<Rightarrow> session_state" where
  "record_request t s = s\<lparr>last_request_time := t\<rparr>"

section \<open>Question generation\<close>

text \<open>\<^verbatim>\<open>needle in haystack\<close> on Python strings: \<open>needle\<close> occurs as a contiguous run.\<close>

fun substring_in :: "string \<Rightarrow> string \<Rightarrow> bool" where
  "substring_in needle [] = (needle = [])"
| "substring_in needle (c # cs) = (prefix needle (c # cs) \<or> substring_in needle cs)"

text \<open>
  \<^verbatim>\<open>str.lower()\<close>, character by character. On the characters of the model (code points below
  256) Python lowers \<open>A\<close> to \<open>Z\<close> and the accented capitals from 192 to 222 other than the
  multiplication sign 215, each by adding 32.
\<close>

definition lower_char :: "char \<Rightarrow> char" where
  "lower_char c =
     (let n = (of_char c :: nat)
      in if (65 \<le> n \<and> n \<le> 90) \<or> (192 \<le> n \<and> n \<le> 222 \<and> n \<noteq> 215)
         then char_of (n + 32) else c)"

definition lower :: "string \<Rightarrow> string" where
  "lower s = map lower_char s"

text \<open>
  Containment that ignores case, stated without \<^const>\<open>lower\<close>: a needle of small letters
  occurs in a text when some contiguous run of the text agrees with it letter by letter, each
  letter of the run being the small letter of the needle or its capital.
\<close>

definition ascii_lowercase :: "char \<Rightarrow> bool" where
  "ascii_lowercase c = (97 \<le> (of_char c :: nat) \<and> (of_char c :: nat) \<le> 122)"

definition upper_ascii :: "char \<Rightarrow> char" where
  "upper_ascii c = (if ascii_lowercase c then char_of ((of_char c :: nat) - 32) else c)"

fun prefix_ignoring_case :: "string \<Rightarrow> string \<Rightarrow> bool" where
  "prefix_ignoring_case [] hay = True"
| "prefix_ignoring_case (n # ns) [] = False"
| "prefix_ignoring_case (n # ns) (c # cs) =
     ((c = n \<or> c = upper_ascii n) \<and> prefix_ignoring_case ns cs)"

fun contains_ignoring_case :: "string \<Rightarrow> string \<Rightarrow> bool" where
  "contains_ignoring_case needle [] = (needle = [])"
| "contains_ignoring_case needle (c # cs) =
     (prefix_ignoring_case needle (c # cs) \<or> contains_ignoring_case needle cs)"

text \<open>
  What \<^verbatim>\<open>model.generate_content(prompt)\<close> followed by \<^verbatim>\<open>response.text if response else None\<close>
  can do: raise an exception whose \<^verbatim>\<open>str(e)\<close> is the given message, return a response that is
  falsy, or return a response with a text.
\<close>

datatype api_outcome = Raises string | NoResponse | ResponseText string

type_synonym generative_model = "string \<Rightarrow> api_outcome"

text \<open>
  The \<^verbatim>\<open>google.generativeai\<close> library as the script uses it: \<open>configure\<close> gives the message of
  the exception \<^verbatim>\<open>genai.configure(api_key=...)\<close> raises, if any, and \<open>model_init\<close> the model
  that \<^verbatim>\<open>genai.GenerativeModel(model_name=...)\<close> builds for an API key and a model name,
  \<open>None\<close> when the constructor raises.
\<close>

record genai_service =
  configure :: "string \<Rightarrow> string option"
  model_init :: "string \<Rightarrow> string \<Rightarrow> generative_model option"

definition model_options :: "string list" where
  "model_options = [''gemini-2.0-flash'', ''gemini-1.5-flash'', ''gemini-1.5-pro'']"

text \<open>The loop \<^verbatim>\<open>for model_name in model_options\<close>: the first model that initialises.\<close>

fun first_model :: "genai_service \<Rightarrow> string \<Rightarrow> string list \<Rightarrow> generative_model option" where
  "first_model svc key [] = None"
| "first_model svc key (model_name # rest) =
     (case model_init svc key model_name of
        Some model \<Rightarrow> Some model
      | None \<Rightarrow> first_model svc key rest)"

text \<open>
  What the script shows the user, where a claim speaks of it. The fixed decoration of a banner
  (an emoji, a constant prefix) is part of the constructor; the argument is the text the
  script interpolates.
  \<^item> \<open>ModelInitError e\<close>: \<^verbatim>\<open>st.error(f"Model initialization error: {str(e)}")\<close>;
  \<^item> \<open>RateLimitWarning m\<close>: \<^verbatim>\<open>st.warning\<close> of the hourglass and \<^verbatim>\<open>error_msg\<close>;
  \<^item> \<open>QuotaExceededError\<close>: the fixed \<^verbatim>\<open>st.error\<close> text headed "API Quota Exceeded";
  \<^item> \<open>GenerationError m\<close>: \<^verbatim>\<open>st.error\<close> of "Error generating questions: " and
    \<^verbatim>\<open>error_str[:200]\<close>.
\<close>

datatype ui_message =
    ModelInitError string
  | RateLimitWarning string
  | QuotaExceededError
  | GenerationError string

text \<open>
  \<^verbatim>\<open>get_generative_model(api_key)\<close>: every exception is caught inside and turned into an error
  banner and the result \<^verbatim>\<open>None\<close>.
\<close>

definition get_generative_model ::
  "genai_service \<Rightarrow> string \<Rightarrow> generative_model option \<times> ui_message list" where
  "get_generative_model svc key =
     (case configure svc key of
        Some e \<Rightarrow> (None, [ModelInitError e])
      | None \<Rightarrow>
          (case first_model svc key model_options of
             Some model \<Rightarrow> (Some model, [])
           | None \<Rightarrow> (None, [ModelInitError ''No compatible Gemini model found''])))"

definition max_chars :: nat where
  "max_chars = 7000"

definition truncation_marker :: string where
  "truncation_marker = ''\<newline>[Content truncated for optimization]''"

text \<open>
  \<^verbatim>\<open>truncated_content = content[:max_chars]\<close>, with the marker appended
  \<^verbatim>\<open>if len(content) > max_chars\<close>.
\<close>

definition truncate_content :: "string \<Rightarrow> string" where
  "truncate_content content =
     (let truncated_content = take max_chars content
      in if length content > max_chars then truncated_content @ truncation_marker
         else truncated_content)"

text \<open>The text of the f-string before and after \<^verbatim>\<open>{truncated_content}\<close>.\<close>

definition prompt_head :: "int \<Rightarrow> int \<Rightarrow> string \<Rightarrow> string \<Rightarrow> string" where
  "prompt_head mcq_count short_count difficulty_level topic_focus =
     ''Generate '' @ str_int mcq_count @ '' MCQs and '' @ str_int short_count
       @ '' short questions.\<newline>Difficulty: '' @ difficulty_level
       @ ''\<newline>Topic: '' @ topic_focus
       @ ''\<newline>\<newline>Content:\<newline>''"

definition prompt_tail :: "int \<Rightarrow> int \<Rightarrow> string" where
  "prompt_tail mcq_count short_count =
     ''\<newline>\<newline>=== MULTIPLE CHOICE ('' @ str_int mcq_count
       @ '') ===\<newline>Q1. [Question]\<newline>A) [Option A]\<newline>B) [Option B]\<newline>C) [Option C]\<newline>D) [Option D]\<newline>Answer: [A/B/C/D]\<newline>\<newline>=== SHORT ANSWER (''
       @ str_int short_count
       @ '') ===\<newline>Q1. [Question]\<newline>Answer: [2-3 lines]''"

definition build_prompt :: "int \<Rightarrow> int \<Rightarrow> string \<Rightarrow> string \<Rightarrow> string \<Rightarrow> string" where
  "build_prompt mcq_count short_count difficulty_level topic_focus truncated_content =
     prompt_head mcq_count short_count difficulty_level topic_focus
       @ truncated_content @ prompt_tail mcq_count short_count"

text \<open>The condition of the quota branch of the exception handler.\<close>

definition is_quota_error :: "string \<Rightarrow> bool" where
  "is_quota_error error_str =
     (substring_in ''429'' error_str \<or> substring_in ''quota'' (lower error_str)
        \<or> substring_in ''exceeded'' (lower error_str))"

text \<open>
  The three readings of \<^verbatim>\<open>time.time()\<close> one run of \<^verbatim>\<open>generate_questions\<close> can make: in
  \<^verbatim>\<open>check_quota_limits\<close>, at the line that records the request, and in the quota branch of
  the exception handler.
\<close>

record clock =
  check_time :: real
  dispatch_time :: real
  error_time :: real

text \<open>
  The result of \<^verbatim>\<open>generate_questions\<close>: the returned value, the session state afterwards,
  the banners shown, and the prompts handed to \<^verbatim>\<open>model.generate_content\<close>.
\<close>

record generation =
  returned :: "string option"
  state_after :: session_state
  shown :: "ui_message list"
  prompts_sent :: "string list"

definition generate_questions ::
  "genai_service \<Rightarrow> clock \<Rightarrow> string \<Rightarrow> string \<Rightarrow> int \<Rightarrow> int \<Rightarrow> string \<Rightarrow> string
     \<Rightarrow> session_state \<Rightarrow> generation" where
  "generate_questions svc clk key content mcq_count short_count difficulty_level topic_focus s =
     (case check_quota_limits (check_time clk) s of
        ((can_proceed, error_msg), s1) \<Rightarrow>
          if \<not> can_proceed then
            \<lparr>returned = None, state_after = s1,
             shown = [RateLimitWarning (case error_msg of None \<Rightarrow> ''None'' | Some m \<Rightarrow> m)],
             prompts_sent = []\<rparr>
          else
            (case get_generative_model svc key of
               (None, banners) \<Rightarrow>
                 \<lparr>returned = None, state_after = s1, shown = banners, prompts_sent = []\<rparr>
             | (Some model, banners) \<Rightarrow>
                 (let truncated_content = truncate_content content;
                      prompt = build_prompt mcq_count short_count difficulty_level topic_focus
                                 truncated_content;
                      s2 = record_request (dispatch_time clk) s1
                  in case model prompt of
                       ResponseText txt \<Rightarrow>
                         \<lparr>returned = Some txt, state_after = s2, shown = banners,
                          prompts_sent = [prompt]\<rparr>
                     | NoResponse \<Rightarrow>
                         \<lparr>returned = None, state_after = s2, shown = banners,
                          prompts_sent = [prompt]\<rparr>
                     | Raises error_str \<Rightarrow>
                         if is_quota_error error_str then
                           \<lparr>returned = None, state_after = record_lockout (error_time clk) s2,
                            shown = banners @ [QuotaExceededError], prompts_sent = [prompt]\<rparr>
                         else
                           \<lparr>returned = None, state_after = s2,
                            shown = banners @ [GenerationError (take 200 error_str)],
                            prompts_sent = [prompt]\<rparr>)))"

section \<open>Saved contexts\<close>

text \<open>
  The characters \<^verbatim>\<open>str.strip()\<close> removes, among the characters of the model: tab, line
  feed, vertical tab, form feed, carriage return, the separators 28 to 31, space, next line
  (133) and no-break space (160).
\<close>

definition whitespace_chars :: "char list" where
  "whitespace_chars =
     [CHR 0x09, CHR ''\<newline>'', CHR 0x0B, CHR 0x0C, CHR 0x0D, CHR 0x1C, CHR 0x1D, CHR 0x1E,
      CHR 0x1F, CHR '' '', CHR 0x85, CHR 0xA0]"

definition is_space :: "char \<Rightarrow> bool" where
  "is_space c = (c \<in> set whitespace_chars)"

definition strip :: "string \<Rightarrow> string" where
  "strip s = rev (dropWhile is_space (rev (dropWhile is_space s)))"

text \<open>The fields of \<^verbatim>\<open>datetime.now()\<close> that the script formats.\<close>

record datetime =
  year :: nat
  month :: nat
  day :: nat
  hour :: nat
  minute :: nat
  second :: nat

text \<open>The ranges \<^verbatim>\<open>datetime\<close> keeps the time of day in.\<close>

definition valid_time :: "datetime \<Rightarrow> bool" where
  "valid_time d = (hour d < 24 \<and> minute d < 60 \<and> second d < 60)"

text \<open>The time of day that \<^verbatim>\<open>%H:%M:%S\<close> prints.\<close>

definition time_of_day :: "datetime \<Rightarrow> nat \<times> nat \<times> nat" where
  "time_of_day d = (hour d, minute d, second d)"

text \<open>A number printed in at least \<open>w\<close> digits, padded with zeros: \<^verbatim>\<open>%02d\<close> for \<open>w = 2\<close>.\<close>

definition zero_pad :: "nat \<Rightarrow> nat \<Rightarrow> string" where
  "zero_pad w n = replicate (w - length (str_nat n)) (CHR ''0'') @ str_nat n"

text \<open>
  \<^verbatim>\<open>strftime('%H:%M:%S')\<close> and \<^verbatim>\<open>strftime("%Y-%m-%d %H:%M:%S")\<close>. The year is printed in
  four digits, as \<^verbatim>\<open>%Y\<close> does for the years from 1000 on.
\<close>

definition strftime_hms :: "datetime \<Rightarrow> string" where
  "strftime_hms d = zero_pad 2 (hour d) @ '':'' @ zero_pad 2 (minute d) @ '':'' @ zero_pad 2 (second d)"

definition strftime_full :: "datetime \<Rightarrow> string" where
  "strftime_full d =
     zero_pad 4 (year d) @ ''-'' @ zero_pad 2 (month d) @ ''-'' @ zero_pad 2 (day d) @ '' ''
       @ strftime_hms d"

text \<open>How an f-string renders \<^verbatim>\<open>current_file_name\<close>, which is a string or \<^verbatim>\<open>None\<close>.\<close>

definition str_opt :: "string option \<Rightarrow> string" where
  "str_opt x = (case x of None \<Rightarrow> ''None'' | Some v \<Rightarrow> v)"

text \<open>
  \<^verbatim>\<open>f"{n/1024:.1f} KB"\<close> for a length \<open>n\<close>: the quotient is exact in binary floating point,
  and the format rounds it to one decimal, ties to the even digit.
\<close>

definition format_kb :: "nat \<Rightarrow> string" where
  "format_kb n =
     (let q = (n * 10) div 1024; r = (n * 10) mod 1024;
          tenths = (if r > 512 \<or> (r = 512 \<and> odd q) then q + 1 else q)
      in str_nat (tenths div 10) @ ''.'' @ str_nat (tenths mod 10) @ '' KB'')"

text \<open>The key \<^verbatim>\<open>f"{current_file_name}_{datetime.now().strftime('%H:%M:%S')}"\<close>.\<close>

definition context_key :: "string option \<Rightarrow> datetime \<Rightarrow> string" where
  "context_key file_name now = str_opt file_name @ ''_'' @ strftime_hms now"

text \<open>
  The Save Context button. \<^verbatim>\<open>datetime.now()\<close> is read twice, for the key and for the
  \<^verbatim>\<open>timestamp\<close> field. The success and warning banners are display only and left out.
\<close>

definition save_context :: "datetime \<Rightarrow> datetime \<Rightarrow> session_state \<Rightarrow> session_state" where
  "save_context now_key now_stamp s =
     (if strip (current_context s) \<noteq> [] then
        s\<lparr>conversation_history :=
            AList.update (context_key (current_file_name s) now_key)
              \<lparr>entry_file = current_file_name s,
               entry_content = current_context s,
               entry_timestamp = strftime_full now_stamp,
               entry_size = format_kb (length (current_context s))\<rparr>
              (conversation_history s)\<rparr>
      else s)"

text \<open>The Clear All button.\<close>

definition clear_all :: "session_state \<Rightarrow> session_state" where
  "clear_all s = s\<lparr>conversation_history := [], current_context := []\<rparr>"

text \<open>
  The loop over \<^verbatim>\<open>conversation_history.items()\<close> that draws one Load and one Delete button
  per saved context. \<open>pressed\<close> tells, for a widget key, whether \<^verbatim>\<open>st.button\<close> returns true
  in this run of the script. Both branches end in \<^verbatim>\<open>st.rerun()\<close>, which stops the run, so the
  loop does not go on after the first pressed button. The key given to \<^verbatim>\<open>del\<close> is the key of
  the item at hand, hence present.
\<close>

fun saved_contexts_loop ::
  "(string \<Rightarrow> bool) \<Rightarrow> (string \<times> saved_context) list \<Rightarrow> session_state \<Rightarrow> session_state" where
  "saved_contexts_loop pressed [] s = s"
| "saved_contexts_loop pressed ((key, context_data) # items) s =
     (if pressed (''load_'' @ key) then
        s\<lparr>current_context := entry_content context_data,
          current_file_name := entry_file context_data\<rparr>
      else if pressed (''del_'' @ key) then
        s\<lparr>conversation_history := AList.delete key (conversation_history s)\<rparr>
      else saved_contexts_loop pressed items s)"

text \<open>The panel is drawn \<^verbatim>\<open>if st.session_state.conversation_history\<close>.\<close>

definition saved_contexts_panel :: "(string \<Rightarrow> bool) \<Rightarrow> session_state \<Rightarrow> session_state" where
  "saved_contexts_panel pressed s =
     (if conversation_history s \<noteq> [] then saved_contexts_loop pressed (conversation_history s) s
      else s)"

text \<open>
  The panel when the pressed widget is the Delete button of the saved context \<open>key\<close>. The
  run that \<^verbatim>\<open>st.rerun()\<close> starts afterwards does not assign \<^verbatim>\<open>conversation_history\<close>.
\<close>

definition delete_context :: "string \<Rightarrow> session_state \<Rightarrow> session_state" where
  "delete_context key s = saved_contexts_panel (\<lambda>w. w = ''del_'' @ key) s"

text \<open>\<^verbatim>\<open>conversation_history.get(key)\<close>: the entry saved under a key, if any.\<close>

definition saved_entry :: "session_state \<Rightarrow> string \<Rightarrow> saved_context option" where
  "saved_entry s key = map_of (conversation_history s) key"

section \<open>Text extraction\<close>

text \<open>The result of a call into a parsing library: an exception with its message, or a value.\<close>

datatype 'a parsed = ParseError string | Parsed 'a

text \<open>
  An uploaded file: its name, and what each parsing library makes of its bytes.
  \<^item> \<open>pdf_pages\<close>: \<^verbatim>\<open>page.extract_text()\<close> for each page of \<^verbatim>\<open>PdfReader(f).pages\<close>, a text or
    \<^verbatim>\<open>None\<close>;
  \<^item> \<open>docx_body\<close>: the texts of \<^verbatim>\<open>Document(f).paragraphs\<close>, and for each table of
    \<^verbatim>\<open>doc.tables\<close> its rows as lists of cell texts;
  \<^item> \<open>txt_decoded\<close>: \<^verbatim>\<open>f.getvalue().decode("utf-8")\<close>;
  \<^item> \<open>csv_dump\<close>: \<^verbatim>\<open>pd.read_csv(f).to_string()\<close>;
  \<^item> \<open>excel_sheets\<close>: each sheet name of \<^verbatim>\<open>pd.ExcelFile(f)\<close> with the \<^verbatim>\<open>to_string()\<close> of its
    data frame.
\<close>

record uploaded_file =
  name :: string
  pdf_pages :: "string option list parsed"
  docx_body :: "(string list \<times> string list list list) parsed"
  txt_decoded :: "string parsed"
  csv_dump :: "string parsed"
  excel_sheets :: "(string \<times> string) list parsed"

text \<open>\<^verbatim>\<open>sep.join(parts)\<close>.\<close>

fun join :: "string \<Rightarrow> string list \<Rightarrow> string" where
  "join sep [] = []"
| "join sep [x] = x"
| "join sep (x # y # ys) = x @ sep @ join sep (y # ys)"

text \<open>The readers. Each returns \<open>None\<close> where the source catches an exception.\<close>

definition read_pdf :: "uploaded_file \<Rightarrow> string option" where
  "read_pdf pdf_file =
     (case pdf_pages pdf_file of
        ParseError e \<Rightarrow> None
      | Parsed pages \<Rightarrow>
          Some (strip (join ''\<newline>'' (map (\<lambda>page. case page of None \<Rightarrow> [] | Some t \<Rightarrow> t) pages))))"

definition read_docx :: "uploaded_file \<Rightarrow> string option" where
  "read_docx docx_file =
     (case docx_body docx_file of
        ParseError e \<Rightarrow> None
      | Parsed (paragraphs, tables) \<Rightarrow>
          Some (strip (foldl (\<lambda>text row. text @ ''\<newline>'' @ join '' | '' row)
                         (join ''\<newline>'' paragraphs) (concat tables))))"

definition read_txt :: "uploaded_file \<Rightarrow> string option" where
  "read_txt txt_file =
     (case txt_decoded txt_file of
        ParseError e \<Rightarrow> None
      | Parsed decoded \<Rightarrow> Some (strip decoded))"

definition read_csv :: "uploaded_file \<Rightarrow> string option" where
  "read_csv csv_file =
     (case csv_dump csv_file of
        ParseError e \<Rightarrow> None
      | Parsed dump \<Rightarrow> Some dump)"

definition read_excel :: "uploaded_file \<Rightarrow> string option" where
  "read_excel excel_file =
     (case excel_sheets excel_file of
        ParseError e \<Rightarrow> None
      | Parsed sheets \<Rightarrow>
          Some (strip (foldl (\<lambda>text (sheet, dump).
                                 text @ ''\<newline>--- Sheet: '' @ sheet @ '' ---\<newline>'' @ dump @ ''\<newline>'')
                         [] sheets)))"

text \<open>\<^verbatim>\<open>name.split(".")[-1]\<close>: the part of the name after its last dot, or all of it.\<close>

definition last_component :: "string \<Rightarrow> string" where
  "last_component file_name = rev (takeWhile (\<lambda>c. c \<noteq> CHR ''.'') (rev file_name))"

definition processors :: "(string \<times> (uploaded_file \<Rightarrow> string option)) list" where
  "processors =
     [(''pdf'', read_pdf), (''docx'', read_docx), (''txt'', read_txt), (''csv'', read_csv),
      (''xls'', read_excel), (''xlsx'', read_excel)]"

text \<open>\<^verbatim>\<open>extract_text(uploaded_file)\<close> for a file that is not \<^verbatim>\<open>None\<close>.\<close>

definition extract_text :: "uploaded_file \<Rightarrow> string option" where
  "extract_text f =
     (let file_type = lower (last_component (name f))
      in case map_of processors file_type of
           Some processor \<Rightarrow> processor f
         | None \<Rightarrow> None)"

text \<open>
  The caller in the upload section: \<^verbatim>\<open>if uploaded_file:\<close> and then \<^verbatim>\<open>if text_content:\<close>,
  which is false for \<^verbatim>\<open>None\<close> and for the empty string.
\<close>

definition upload :: "uploaded_file option \<Rightarrow> session_state \<Rightarrow> session_state" where
  "upload uploaded s =
     (case uploaded of
        None \<Rightarrow> s
      | Some f \<Rightarrow>
          (case extract_text f of
             None \<Rightarrow> s
           | Some text_content \<Rightarrow>
               if text_content \<noteq> [] then
                 s\<lparr>current_context := text_content, current_file_name := Some (name f)\<rparr>
               else s))"

section \<open>Runs of the script\<close>

text \<open>
  Streamlit runs the whole script again after every interaction, and \<^verbatim>\<open>st.rerun()\<close> stops the
  current run and starts another. The widgets keep their values from run to run: the text in
  the API key field and the file in the uploader.
\<close>

record widgets =
  api_key_input :: string
  uploader :: "uploaded_file option"

text \<open>The sidebar lines \<^verbatim>\<open>if api_key_input: st.session_state.api_key = api_key_input\<close>.\<close>

definition sidebar_api_key :: "string \<Rightarrow> session_state \<Rightarrow> session_state" where
  "sidebar_api_key key_input s = (if key_input \<noteq> [] then s\<lparr>api_key := Some key_input\<rparr> else s)"

text \<open>
  The main content with the Generate button not pressed: nothing but a notice when
  \<^verbatim>\<open>not st.session_state.api_key\<close> (the key is \<^verbatim>\<open>None\<close> or empty), the upload section
  otherwise.
\<close>

definition main_content :: "uploaded_file option \<Rightarrow> session_state \<Rightarrow> session_state" where
  "main_content uploaded s =
     (case api_key s of
        None \<Rightarrow> s
      | Some k \<Rightarrow> if k = [] then s else upload uploaded s)"

text \<open>A run of the script in which no button is pressed, as \<^verbatim>\<open>st.rerun()\<close> starts one.\<close>

definition quiet_run :: "widgets \<Rightarrow> session_state \<Rightarrow> session_state" where
  "quiet_run w s = main_content (uploader w) (sidebar_api_key (api_key_input w) s)"

text \<open>Whether the loop over the saved contexts meets a pressed button and so reaches \<^verbatim>\<open>st.rerun()\<close>.\<close>

definition rerun_requested :: "(string \<Rightarrow> bool) \<Rightarrow> session_state \<Rightarrow> bool" where
  "rerun_requested pressed s =
     list_ex (\<lambda>(key, context_data). pressed (''load_'' @ key) \<or> pressed (''del_'' @ key))
       (conversation_history s)"

text \<open>
  A run of the script in which the only buttons that can be pressed are those of the saved
  contexts: the sidebar up to the panel, the panel, and then either the run that
  \<^verbatim>\<open>st.rerun()\<close> starts or, when no button was met, the rest of this run.
\<close>

definition panel_run :: "widgets \<Rightarrow> (string \<Rightarrow> bool) \<Rightarrow> session_state \<Rightarrow> session_state" where
  "panel_run w pressed s =
     (let s0 = sidebar_api_key (api_key_input w) s;
          s1 = saved_contexts_panel pressed s0
      in if rerun_requested pressed s0 then quiet_run w s1 else main_content (uploader w) s1)"

text \<open>Pressing the Load button of the saved context \<open>key\<close>, with the run it starts.\<close>

definition load_context :: "widgets \<Rightarrow> string \<Rightarrow> session_state \<Rightarrow> session_state" where
  "load_context w key s = panel_run w (\<lambda>widget. widget = ''load_'' @ key) s"

section \<open>Properties of the admission gate\<close>

lemma py_int_nonneg: "0 \<le> x \<Longrightarrow> py_int x = \<lfloor>x\<rfloor>"
  by (simp add: py_int_def)

lemma admitted_not_truthy:
  "fst (fst (check_quota_limits now s)) \<Longrightarrow>
     \<not> truthy_time (quota_reset_time (snd (check_quota_limits now s)))"
  by (auto simp add: check_quota_limits_def truthy_time_def Let_def split: if_splits)

text \<open>
  C1. In a state with \<open>last_request_time = t\<close> and no active lockout, a check at
  \<open>now < t + 3\<close> is refused, and the message carries the wait \<open>3 - (now - t)\<close> rounded down to
  whole seconds; a check at \<open>now \<ge> t + 3\<close> is admitted, the boundary included.
\<close>

theorem spacing_rule:
  "\<not> lockout_active s now \<Longrightarrow>
     (now < last_request_time s + 3 \<longrightarrow>
        fst (check_quota_limits now s) =
          (False, Some (''Wait '' @ str_int \<lfloor>3 - (now - last_request_time s)\<rfloor>
                          @ ''s before next request.'')))
     \<and> (last_request_time s + 3 \<le> now \<longrightarrow> fst (check_quota_limits now s) = (True, None))"
  by (auto simp add: check_quota_limits_def lockout_active_def Let_def py_int_nonneg)

theorem spacing_rule_witness:
  "fst (check_quota_limits 12.9 (initial_state\<lparr>last_request_time := 10\<rparr>)) =
     (False, Some ''Wait 0s before next request.'')
   \<and> fst (check_quota_limits 13 (initial_state\<lparr>last_request_time := 10\<rparr>)) = (True, None)"
  using spacing_rule [of "initial_state\<lparr>last_request_time := 10\<rparr>" "12.9"]
    spacing_rule [of "initial_state\<lparr>last_request_time := 10\<rparr>" 13]
  by (simp add: lockout_active_def initial_state_def truthy_time_def str_int_def str_nat.simps
      digit_char_def)

text \<open>
  C2. After the lockout is recorded at clock reading \<open>t\<close>, every check at \<open>now < t + 120\<close>
  is refused as rate limited, with the remaining wait in whole seconds, and leaves the state
  as it is; a check at \<open>now \<ge> t + 120\<close> clears the lockout, and admits the request when the
  three seconds of spacing have passed as well. The clock counts seconds since 1970, so the
  one reading \<open>t = -120\<close>, for which the stored reset time is the float zero that Python takes
  for false, is left out.
\<close>

theorem lockout_rule:
  "t \<noteq> - 120 \<Longrightarrow>
     (now < t + 120 \<longrightarrow>
        check_quota_limits now (record_lockout t s) =
          ((False, Some (''Rate limited. Wait '' @ str_int \<lfloor>t + 120 - now\<rfloor> @ ''s.'')),
           record_lockout t s))
     \<and> (t + 120 \<le> now \<longrightarrow>
          quota_reset_time (snd (check_quota_limits now (record_lockout t s))) = None
          \<and> (3 \<le> now - last_request_time s \<longrightarrow>
                fst (check_quota_limits now (record_lockout t s)) = (True, None)))"
  by (auto simp add: check_quota_limits_def record_lockout_def truthy_time_def reset_value_def
      Let_def py_int_nonneg)

theorem lockout_rule_witness:
  "check_quota_limits 1050.5 (record_lockout 1000 (initial_state\<lparr>last_request_time := 999\<rparr>)) =
     ((False, Some ''Rate limited. Wait 69s.''),
      record_lockout 1000 (initial_state\<lparr>last_request_time := 999\<rparr>))
   \<and> quota_reset_time (snd (check_quota_limits 1120
         (record_lockout 1000 (initial_state\<lparr>last_request_time := 999\<rparr>)))) = None
   \<and> fst (check_quota_limits 1120
         (record_lockout 1000 (initial_state\<lparr>last_request_time := 999\<rparr>))) = (True, None)"
  using lockout_rule [of 1000 "1050.5" "initial_state\<lparr>last_request_time := 999\<rparr>"]
    lockout_rule [of 1000 1120 "initial_state\<lparr>last_request_time := 999\<rparr>"]
  by (simp add: initial_state_def str_int_def str_nat.simps digit_char_def)

text \<open>
  C3, as the code has it. A check never changes \<open>last_request_time\<close>, nor any other field
  but \<open>quota_reset_time\<close>; that one it sets to \<open>None\<close> when a lockout is set and its time has
  passed, and leaves alone otherwise. The answer of the check depends on the current time,
  \<open>last_request_time\<close> and \<open>quota_reset_time\<close> only.
\<close>

theorem check_frame:
  "snd (check_quota_limits now s) =
     s\<lparr>quota_reset_time :=
         (if truthy_time (quota_reset_time s) \<and> reset_value (quota_reset_time s) \<le> now
          then None else quota_reset_time s)\<rparr>
   \<and> last_request_time (snd (check_quota_limits now s)) = last_request_time s
   \<and> (last_request_time s' = last_request_time s \<and> quota_reset_time s' = quota_reset_time s
        \<longrightarrow> fst (check_quota_limits now s') = fst (check_quota_limits now s))"
  by (auto simp add: check_quota_limits_def Let_def)

theorem check_frame_witness:
  "snd (check_quota_limits 5 initial_state) = initial_state
   \<and> fst (check_quota_limits 5 (initial_state\<lparr>current_context := ''abc''\<rparr>)) =
       fst (check_quota_limits 5 initial_state)"
  using check_frame [of 5 initial_state "initial_state\<lparr>current_context := ''abc''\<rparr>"]
  by (simp add: initial_state_def truthy_time_def)

text \<open>
  C3, as stated, fails: a check at time 200 on a state whose lockout ran until 100 changes
  \<open>quota_reset_time\<close>.
\<close>

theorem check_mutates_counterexample:
  "quota_reset_time (snd (check_quota_limits 200 (initial_state\<lparr>quota_reset_time := Some 100\<rparr>)))
     \<noteq> quota_reset_time (initial_state\<lparr>quota_reset_time := Some 100\<rparr>)"
  by (simp add: check_quota_limits_def initial_state_def truthy_time_def reset_value_def Let_def)

section \<open>Properties of question generation\<close>

lemma get_model_Some:
  "fst (get_generative_model svc key) = Some model \<Longrightarrow> get_generative_model svc key = (Some model, [])"
  by (auto simp add: get_generative_model_def split: option.splits)

lemma generate_dispatched:
  assumes "fst (fst (check_quota_limits (check_time clk) s))"
    and "fst (get_generative_model svc key) = Some model"
  shows "generate_questions svc clk key content mcq_count short_count difficulty_level topic_focus s =
     (let prompt = build_prompt mcq_count short_count difficulty_level topic_focus
                     (truncate_content content);
          s2 = record_request (dispatch_time clk) (snd (check_quota_limits (check_time clk) s))
      in case model prompt of
           ResponseText txt \<Rightarrow>
             \<lparr>returned = Some txt, state_after = s2, shown = [], prompts_sent = [prompt]\<rparr>
         | NoResponse \<Rightarrow>
             \<lparr>returned = None, state_after = s2, shown = [], prompts_sent = [prompt]\<rparr>
         | Raises error_str \<Rightarrow>
             if is_quota_error error_str then
               \<lparr>returned = None, state_after = record_lockout (error_time clk) s2,
                shown = [QuotaExceededError], prompts_sent = [prompt]\<rparr>
             else
               \<lparr>returned = None, state_after = s2,
                shown = [GenerationError (take 200 error_str)], prompts_sent = [prompt]\<rparr>)"
proof -
  obtain b m s1 where c: "check_quota_limits (check_time clk) s = ((b, m), s1)"
    by (metis surj_pair)
  with assms(1) have b: "b" by simp
  show ?thesis
    by (simp add: generate_questions_def c b get_model_Some [OF assms(2)] Let_def
        split: api_outcome.splits)
qed

lemma truncate_content_eq:
  "truncate_content content =
     (if 7000 < length content then take 7000 content @ truncation_marker else content)"
  by (simp add: truncate_content_def max_chars_def Let_def)

text \<open>
  C4. The content put into the prompt is the source text itself when it has at most 7000
  characters, and its first 7000 characters followed by the (non-empty) truncation marker
  when it has more; so a text of 10000 characters contributes exactly 7000 characters of
  content and the marker. The prompt handed to the model is the head of the template, this
  content, and the tail of the template.
\<close>

theorem prompt_truncation:
  "truncate_content content =
     (if 7000 < length content then take 7000 content @ truncation_marker else content)
   \<and> truncation_marker \<noteq> []
   \<and> (length content = 10000 \<longrightarrow>
        truncate_content content = take 7000 content @ truncation_marker
        \<and> length (take 7000 content) = 7000)
   \<and> (fst (fst (check_quota_limits (check_time clk) s))
        \<and> fst (get_generative_model svc key) = Some model \<longrightarrow>
      prompts_sent (generate_questions svc clk key content mcq_count short_count difficulty_level
                      topic_focus s) =
        [prompt_head mcq_count short_count difficulty_level topic_focus
           @ truncate_content content @ prompt_tail mcq_count short_count])"
proof -
  have a: "truncate_content content =
     (if 7000 < length content then take 7000 content @ truncation_marker else content)"
    by (rule truncate_content_eq)
  have b: "truncation_marker \<noteq> []"
    by (simp add: truncation_marker_def)
  have c: "length content = 10000 \<longrightarrow>
        truncate_content content = take 7000 content @ truncation_marker
        \<and> length (take 7000 content) = 7000"
    by (simp add: truncate_content_eq)
  have d: "fst (fst (check_quota_limits (check_time clk) s))
        \<and> fst (get_generative_model svc key) = Some model \<longrightarrow>
      prompts_sent (generate_questions svc clk key content mcq_count short_count difficulty_level
                      topic_focus s) =
        [prompt_head mcq_count short_count difficulty_level topic_focus
           @ truncate_content content @ prompt_tail mcq_count short_count]"
  proof
    assume h: "fst (fst (check_quota_limits (check_time clk) s))
        \<and> fst (get_generative_model svc key) = Some model"
    show "prompts_sent (generate_questions svc clk key content mcq_count short_count
                      difficulty_level topic_focus s) =
        [prompt_head mcq_count short_count difficulty_level topic_focus
           @ truncate_content content @ prompt_tail mcq_count short_count]"
      by (simp add: generate_dispatched [OF conjunct1 [OF h] conjunct2 [OF h]] Let_def
          build_prompt_def split: api_outcome.splits)
  qed
  from a b c d show ?thesis by blast
qed

theorem prompt_truncation_witness:
  "truncate_content (replicate 10000 (CHR ''a'')) = replicate 7000 (CHR ''a'') @ truncation_marker
   \<and> prompts_sent
     (generate_questions
        \<lparr>configure = (\<lambda>k. None), model_init = (\<lambda>k n. Some (\<lambda>p. ResponseText ''Q1''))\<rparr>
        \<lparr>check_time = 100, dispatch_time = 101, error_time = 102\<rparr>
        ''key'' (replicate 10000 (CHR ''a'')) 5 3 ''Medium'' ''All topics'' initial_state) =
     [prompt_head 5 3 ''Medium'' ''All topics''
        @ replicate 7000 (CHR ''a'') @ truncation_marker @ prompt_tail 5 3]"
  using prompt_truncation [of "replicate 10000 (CHR ''a'')"
      "\<lparr>check_time = 100, dispatch_time = 101, error_time = 102\<rparr>" initial_state
      "\<lparr>configure = (\<lambda>k. None), model_init = (\<lambda>k n. Some (\<lambda>p. ResponseText ''Q1''))\<rparr>"
      "''key''" "\<lambda>p. ResponseText ''Q1''" 5 3 "''Medium''" "''All topics''"]
  by (simp add: get_generative_model_def model_options_def check_quota_limits_def
      initial_state_def truthy_time_def Let_def)


lemma substring_in_iff: "substring_in needle hay \<longleftrightarrow> (\<exists>xs ys. hay = xs @ needle @ ys)"
proof (induction hay)
  case Nil
  then show ?case by auto
next
  case (Cons c cs)
  show ?case
  proof
    assume "substring_in needle (c # cs)"
    then consider "prefix needle (c # cs)" | "substring_in needle cs" by auto
    then show "\<exists>xs ys. c # cs = xs @ needle @ ys"
    proof cases
      case 1
      then obtain ys where "c # cs = needle @ ys" by (auto simp add: prefix_def)
      then have "c # cs = [] @ needle @ ys" by simp
      then show ?thesis by blast
    next
      case 2
      with Cons.IH obtain xs ys where "cs = xs @ needle @ ys" by blast
      then have "c # cs = (c # xs) @ needle @ ys" by simp
      then show ?thesis by blast
    qed
  next
    assume "\<exists>xs ys. c # cs = xs @ needle @ ys"
    then obtain xs ys where e: "c # cs = xs @ needle @ ys" by blast
    show "substring_in needle (c # cs)"
    proof (cases xs)
      case Nil
      with e have "prefix needle (c # cs)" by (simp add: prefix_def)
      then show ?thesis by simp
    next
      case (Cons x xs')
      with e have "cs = xs' @ needle @ ys" by simp
      with Cons.IH have "substring_in needle cs" by blast
      then show ?thesis by simp
    qed
  qed
qed

lemma lower_char_eq_iff:
  assumes "ascii_lowercase n"
  shows "lower_char c = n \<longleftrightarrow> c = n \<or> c = upper_ascii n"
proof -
  let ?k = "of_char c :: nat" and ?m = "of_char n :: nat"
  have k: "?k < 256" by simp
  from assms have m: "97 \<le> ?m" "?m \<le> 122" by (simp_all add: ascii_lowercase_def)
  have l: "(of_char (lower_char c) :: nat) =
      (if (65 \<le> ?k \<and> ?k \<le> 90) \<or> (192 \<le> ?k \<and> ?k \<le> 222 \<and> ?k \<noteq> 215) then ?k + 32 else ?k)"
    using k by (simp add: lower_char_def Let_def)
  have u: "(of_char (upper_ascii n) :: nat) = ?m - 32"
    using assms m by (simp add: upper_ascii_def)
  have "lower_char c = n \<longleftrightarrow> (of_char (lower_char c) :: nat) = ?m" by simp
  also have "\<dots> \<longleftrightarrow> ?k = ?m \<or> ?k = ?m - 32"
    using m k by (auto simp add: l)
  also have "\<dots> \<longleftrightarrow> c = n \<or> (of_char c :: nat) = of_char (upper_ascii n)"
    by (simp add: u)
  also have "\<dots> \<longleftrightarrow> c = n \<or> c = upper_ascii n"
    by (simp only: of_char_eq_iff)
  finally show ?thesis .
qed

lemma prefix_lower_iff:
  "\<forall>n \<in> set needle. ascii_lowercase n \<Longrightarrow>
     prefix needle (lower hay) \<longleftrightarrow> prefix_ignoring_case needle hay"
proof (induction needle arbitrary: hay)
  case Nil
  then show ?case by simp
next
  case (Cons n ns)
  show ?case
  proof (cases hay)
    case Nil
    then show ?thesis by (simp add: lower_def)
  next
    case (Cons c cs)
    from Cons.prems have n: "ascii_lowercase n" and ns: "\<forall>n \<in> set ns. ascii_lowercase n"
      by simp_all
    have "prefix (n # ns) (lower (c # cs)) \<longleftrightarrow> lower_char c = n \<and> prefix ns (lower cs)"
      by (auto simp add: lower_def)
    also have "\<dots> \<longleftrightarrow> (c = n \<or> c = upper_ascii n) \<and> prefix_ignoring_case ns cs"
      by (simp only: lower_char_eq_iff [OF n] Cons.IH [OF ns])
    finally show ?thesis by (simp add: Cons)
  qed
qed

lemma substring_lower_iff:
  "\<forall>n \<in> set needle. ascii_lowercase n \<Longrightarrow>
     substring_in needle (lower hay) \<longleftrightarrow> contains_ignoring_case needle hay"
proof (induction hay)
  case Nil
  then show ?case by (simp add: lower_def)
next
  case (Cons c cs)
  have "substring_in needle (lower (c # cs)) \<longleftrightarrow>
      prefix needle (lower (c # cs)) \<or> substring_in needle (lower cs)"
    by (simp add: lower_def)
  also have "\<dots> \<longleftrightarrow> prefix_ignoring_case needle (c # cs) \<or> contains_ignoring_case needle cs"
    by (simp only: prefix_lower_iff [OF Cons.prems] Cons.IH [OF Cons.prems])
  finally show ?case by simp
qed

lemma is_quota_error_iff:
  "is_quota_error error_str \<longleftrightarrow>
     (\<exists>xs ys. error_str = xs @ ''429'' @ ys) \<or> contains_ignoring_case ''quota'' error_str
       \<or> contains_ignoring_case ''exceeded'' error_str"
proof -
  have q: "\<forall>n \<in> set ''quota''. ascii_lowercase n"
    by (simp add: ascii_lowercase_def)
  have e: "\<forall>n \<in> set ''exceeded''. ascii_lowercase n"
    by (simp add: ascii_lowercase_def)
  have n: "substring_in ''429'' error_str \<longleftrightarrow> (\<exists>xs ys. error_str = xs @ ''429'' @ ys)"
    by (rule substring_in_iff)
  show ?thesis
    by (simp only: is_quota_error_def substring_lower_iff [OF q] substring_lower_iff [OF e] n)
qed

text \<open>
  C5. When the call to the model raises an error: if the message contains \<open>429\<close>, or
  contains \<open>quota\<close> or \<open>exceeded\<close> in any mix of small and capital letters, the quota
  banner is shown and the lockout is set to 120 seconds after the clock reading of the
  handler; otherwise the error banner carries the first 200 characters of the message and no
  lockout is set.
\<close>

theorem error_classification:
  "fst (fst (check_quota_limits (check_time clk) s))
   \<and> fst (get_generative_model svc key) = Some model
   \<and> model (build_prompt mcq_count short_count difficulty_level topic_focus
              (truncate_content content)) = Raises error_str
   \<and> g = generate_questions svc clk key content mcq_count short_count difficulty_level
           topic_focus s
   \<Longrightarrow>
     ((\<exists>xs ys. error_str = xs @ ''429'' @ ys) \<or> contains_ignoring_case ''quota'' error_str
        \<or> contains_ignoring_case ''exceeded'' error_str \<longrightarrow>
          returned g = None \<and> shown g = [QuotaExceededError]
          \<and> quota_reset_time (state_after g) = Some (error_time clk + 120))
     \<and> (\<not> ((\<exists>xs ys. error_str = xs @ ''429'' @ ys) \<or> contains_ignoring_case ''quota'' error_str
              \<or> contains_ignoring_case ''exceeded'' error_str) \<longrightarrow>
          returned g = None \<and> shown g = [GenerationError (take 200 error_str)]
          \<and> length (take 200 error_str) \<le> 200
          \<and> quota_reset_time (state_after g) =
              quota_reset_time (snd (check_quota_limits (check_time clk) s))
          \<and> \<not> truthy_time (quota_reset_time (state_after g)))"
proof -
  assume h: "fst (fst (check_quota_limits (check_time clk) s))
   \<and> fst (get_generative_model svc key) = Some model
   \<and> model (build_prompt mcq_count short_count difficulty_level topic_focus
              (truncate_content content)) = Raises error_str
   \<and> g = generate_questions svc clk key content mcq_count short_count difficulty_level
           topic_focus s"
  then have adm: "fst (fst (check_quota_limits (check_time clk) s))"
    and mdl: "fst (get_generative_model svc key) = Some model"
    and out: "model (build_prompt mcq_count short_count difficulty_level topic_focus
              (truncate_content content)) = Raises error_str"
    and g: "g = generate_questions svc clk key content mcq_count short_count difficulty_level
           topic_focus s"
    by simp_all
  note q = is_quota_error_iff [of error_str]
  have geq: "g = (if is_quota_error error_str then
               \<lparr>returned = None,
                state_after = record_lockout (error_time clk)
                  (record_request (dispatch_time clk)
                     (snd (check_quota_limits (check_time clk) s))),
                shown = [QuotaExceededError],
                prompts_sent = [build_prompt mcq_count short_count difficulty_level topic_focus
                                  (truncate_content content)]\<rparr>
             else
               \<lparr>returned = None,
                state_after = record_request (dispatch_time clk)
                     (snd (check_quota_limits (check_time clk) s)),
                shown = [GenerationError (take 200 error_str)],
                prompts_sent = [build_prompt mcq_count short_count difficulty_level topic_focus
                                  (truncate_content content)]\<rparr>)"
    by (simp only: g generate_dispatched [OF adm mdl] Let_def out api_outcome.case)
  have nt: "\<not> truthy_time (quota_reset_time (snd (check_quota_limits (check_time clk) s)))"
    by (rule admitted_not_truthy [OF adm])
  show ?thesis
  proof (cases "is_quota_error error_str")
    case True
    with geq have "g = \<lparr>returned = None,
                state_after = record_lockout (error_time clk)
                  (record_request (dispatch_time clk)
                     (snd (check_quota_limits (check_time clk) s))),
                shown = [QuotaExceededError],
                prompts_sent = [build_prompt mcq_count short_count difficulty_level topic_focus
                                  (truncate_content content)]\<rparr>" by simp
    then have "returned g = None \<and> shown g = [QuotaExceededError]
          \<and> quota_reset_time (state_after g) = Some (error_time clk + 120)"
      by (simp add: record_lockout_def)
    with True q show ?thesis by blast
  next
    case False
    with geq have "g = \<lparr>returned = None,
                state_after = record_request (dispatch_time clk)
                     (snd (check_quota_limits (check_time clk) s)),
                shown = [GenerationError (take 200 error_str)],
                prompts_sent = [build_prompt mcq_count short_count difficulty_level topic_focus
                                  (truncate_content content)]\<rparr>" by simp
    then have "returned g = None \<and> shown g = [GenerationError (take 200 error_str)]
          \<and> length (take 200 error_str) \<le> 200
          \<and> quota_reset_time (state_after g) =
              quota_reset_time (snd (check_quota_limits (check_time clk) s))
          \<and> \<not> truthy_time (quota_reset_time (state_after g))"
      using nt by (simp add: record_request_def)
    with False q show ?thesis by blast
  qed
qed


theorem error_classification_witness:
  "shown (generate_questions
        \<lparr>configure = (\<lambda>k. None),
         model_init = (\<lambda>k n. Some (\<lambda>p. Raises ''Error 429: Too Many Requests''))\<rparr>
        \<lparr>check_time = 100, dispatch_time = 101, error_time = 102\<rparr>
        ''key'' ''text'' 5 3 ''Medium'' ''All topics'' initial_state) = [QuotaExceededError]
   \<and> quota_reset_time (state_after (generate_questions
        \<lparr>configure = (\<lambda>k. None),
         model_init = (\<lambda>k n. Some (\<lambda>p. Raises ''Error 429: Too Many Requests''))\<rparr>
        \<lparr>check_time = 100, dispatch_time = 101, error_time = 102\<rparr>
        ''key'' ''text'' 5 3 ''Medium'' ''All topics'' initial_state)) = Some 222
   \<and> shown (generate_questions
        \<lparr>configure = (\<lambda>k. None),
         model_init = (\<lambda>k n. Some (\<lambda>p. Raises ''Daily QUOTA reached for this project''))\<rparr>
        \<lparr>check_time = 100, dispatch_time = 101, error_time = 102\<rparr>
        ''key'' ''text'' 5 3 ''Medium'' ''All topics'' initial_state) = [QuotaExceededError]
   \<and> quota_reset_time (state_after (generate_questions
        \<lparr>configure = (\<lambda>k. None),
         model_init = (\<lambda>k n. Some (\<lambda>p. Raises ''Daily QUOTA reached for this project''))\<rparr>
        \<lparr>check_time = 100, dispatch_time = 101, error_time = 102\<rparr>
        ''key'' ''text'' 5 3 ''Medium'' ''All topics'' initial_state)) = Some 222
   \<and> shown (generate_questions
        \<lparr>configure = (\<lambda>k. None),
         model_init = (\<lambda>k n. Some (\<lambda>p. Raises ''Deadline Exceeded''))\<rparr>
        \<lparr>check_time = 100, dispatch_time = 101, error_time = 102\<rparr>
        ''key'' ''text'' 5 3 ''Medium'' ''All topics'' initial_state) = [QuotaExceededError]
   \<and> shown (generate_questions
        \<lparr>configure = (\<lambda>k. None), model_init = (\<lambda>k n. Some (\<lambda>p. Raises ''timeout''))\<rparr>
        \<lparr>check_time = 100, dispatch_time = 101, error_time = 102\<rparr>
        ''key'' ''text'' 5 3 ''Medium'' ''All topics'' initial_state) = [GenerationError ''timeout'']
   \<and> quota_reset_time (state_after (generate_questions
        \<lparr>configure = (\<lambda>k. None), model_init = (\<lambda>k n. Some (\<lambda>p. Raises ''timeout''))\<rparr>
        \<lparr>check_time = 100, dispatch_time = 101, error_time = 102\<rparr>
        ''key'' ''text'' 5 3 ''Medium'' ''All topics'' initial_state)) = None"
proof -
  let ?clk = "\<lparr>check_time = 100, dispatch_time = 101, error_time = 102\<rparr>"
  have adm: "fst (fst (check_quota_limits (check_time ?clk) initial_state))"
    by (simp add: check_quota_limits_def initial_state_def truthy_time_def Let_def)
  have chk: "quota_reset_time (snd (check_quota_limits (check_time ?clk) initial_state)) = None"
    by (simp add: check_quota_limits_def initial_state_def truthy_time_def Let_def)
  have q1: "\<exists>xs ys. ''Error 429: Too Many Requests'' = xs @ ''429'' @ ys"
  proof -
    have "''Error 429: Too Many Requests'' = ''Error '' @ ''429'' @ '': Too Many Requests''"
      by simp
    then show ?thesis by blast
  qed
  have q2: "contains_ignoring_case ''quota'' ''Daily QUOTA reached for this project''"
    by code_simp
  have q3: "contains_ignoring_case ''exceeded'' ''Deadline Exceeded''"
    by code_simp
  have nq: "\<not> ((\<exists>xs ys. ''timeout'' = xs @ ''429'' @ ys)
              \<or> contains_ignoring_case ''quota'' ''timeout''
              \<or> contains_ignoring_case ''exceeded'' ''timeout'')"
  proof -
    have "\<not> substring_in ''429'' ''timeout''" by simp
    with substring_in_iff [of "''429''" "''timeout''"]
    have "\<not> (\<exists>xs ys. ''timeout'' = xs @ ''429'' @ ys)"
      by blast
    moreover have "\<not> contains_ignoring_case ''quota'' ''timeout''" by code_simp
    moreover have "\<not> contains_ignoring_case ''exceeded'' ''timeout''" by code_simp
    ultimately show ?thesis by blast
  qed
  have m: "fst (get_generative_model
      \<lparr>configure = (\<lambda>k. None), model_init = (\<lambda>k n. Some (\<lambda>p. Raises e))\<rparr> ''key'')
      = Some (\<lambda>p. Raises e)" for e
    by (simp add: get_generative_model_def model_options_def)
  note r = error_classification [where clk = ?clk and s = initial_state and key = "''key''"
        and content = "''text''" and mcq_count = 5 and short_count = 3
        and difficulty_level = "''Medium''" and topic_focus = "''All topics''",
        OF conjI [OF adm conjI [OF m conjI [OF refl refl]]]]
  have a: "shown (generate_questions
        \<lparr>configure = (\<lambda>k. None),
         model_init = (\<lambda>k n. Some (\<lambda>p. Raises ''Error 429: Too Many Requests''))\<rparr>
        ?clk ''key'' ''text'' 5 3 ''Medium'' ''All topics'' initial_state) = [QuotaExceededError]
   \<and> quota_reset_time (state_after (generate_questions
        \<lparr>configure = (\<lambda>k. None),
         model_init = (\<lambda>k n. Some (\<lambda>p. Raises ''Error 429: Too Many Requests''))\<rparr>
        ?clk ''key'' ''text'' 5 3 ''Medium'' ''All topics'' initial_state))
       = Some (error_time ?clk + 120)"
    using r [of "''Error 429: Too Many Requests''"] q1 by blast
  have b: "shown (generate_questions
        \<lparr>configure = (\<lambda>k. None),
         model_init = (\<lambda>k n. Some (\<lambda>p. Raises ''Daily QUOTA reached for this project''))\<rparr>
        ?clk ''key'' ''text'' 5 3 ''Medium'' ''All topics'' initial_state) = [QuotaExceededError]
   \<and> quota_reset_time (state_after (generate_questions
        \<lparr>configure = (\<lambda>k. None),
         model_init = (\<lambda>k n. Some (\<lambda>p. Raises ''Daily QUOTA reached for this project''))\<rparr>
        ?clk ''key'' ''text'' 5 3 ''Medium'' ''All topics'' initial_state))
       = Some (error_time ?clk + 120)"
    using r [of "''Daily QUOTA reached for this project''"] q2 by blast
  have c: "shown (generate_questions
        \<lparr>configure = (\<lambda>k. None),
         model_init = (\<lambda>k n. Some (\<lambda>p. Raises ''Deadline Exceeded''))\<rparr>
        ?clk ''key'' ''text'' 5 3 ''Medium'' ''All topics'' initial_state) = [QuotaExceededError]"
    using r [of "''Deadline Exceeded''"] q3 by blast
  have d: "shown (generate_questions
        \<lparr>configure = (\<lambda>k. None), model_init = (\<lambda>k n. Some (\<lambda>p. Raises ''timeout''))\<rparr>
        ?clk ''key'' ''text'' 5 3 ''Medium'' ''All topics'' initial_state)
       = [GenerationError (take 200 ''timeout'')]
   \<and> quota_reset_time (state_after (generate_questions
        \<lparr>configure = (\<lambda>k. None), model_init = (\<lambda>k n. Some (\<lambda>p. Raises ''timeout''))\<rparr>
        ?clk ''key'' ''text'' 5 3 ''Medium'' ''All topics'' initial_state))
       = quota_reset_time (snd (check_quota_limits (check_time ?clk) initial_state))"
    using r [of "''timeout''"] nq by blast
  from a b c d chk show ?thesis
    by simp
qed

text \<open>
  C8. When an attempt passes the admission check and its request is dispatched, that is a
  model is obtained, \<open>last_request_time\<close> is the clock reading taken just before the call,
  whatever the call then does; so after a failure that is not a quota error a check less than
  three seconds after that reading is refused. The time is recorded on dispatch only: an
  attempt that obtains no model sends nothing and leaves \<open>last_request_time\<close> as it was.
\<close>

theorem request_recorded_at_dispatch:
  "fst (fst (check_quota_limits (check_time clk) s))
   \<and> g = generate_questions svc clk key content mcq_count short_count difficulty_level
           topic_focus s
   \<Longrightarrow>
     (\<forall>model. fst (get_generative_model svc key) = Some model \<longrightarrow>
        last_request_time (state_after g) = dispatch_time clk
        \<and> prompts_sent g = [build_prompt mcq_count short_count difficulty_level topic_focus
                              (truncate_content content)]
        \<and> (\<forall>error_str now.
              model (build_prompt mcq_count short_count difficulty_level topic_focus
                       (truncate_content content)) = Raises error_str
              \<and> \<not> ((\<exists>xs ys. error_str = xs @ ''429'' @ ys)
                     \<or> contains_ignoring_case ''quota'' error_str
                     \<or> contains_ignoring_case ''exceeded'' error_str)
              \<and> now < dispatch_time clk + 3 \<longrightarrow>
              fst (check_quota_limits now (state_after g)) =
                (False, Some (''Wait '' @ str_int \<lfloor>3 - (now - dispatch_time clk)\<rfloor>
                                @ ''s before next request.''))))
     \<and> (fst (get_generative_model svc key) = None \<longrightarrow>
          prompts_sent g = [] \<and> last_request_time (state_after g) = last_request_time s)"
proof -
  assume h: "fst (fst (check_quota_limits (check_time clk) s))
   \<and> g = generate_questions svc clk key content mcq_count short_count difficulty_level
           topic_focus s"
  then have adm: "fst (fst (check_quota_limits (check_time clk) s))"
    and g: "g = generate_questions svc clk key content mcq_count short_count difficulty_level
           topic_focus s"
    by simp_all
  let ?p = "build_prompt mcq_count short_count difficulty_level topic_focus
              (truncate_content content)"
  let ?s1 = "snd (check_quota_limits (check_time clk) s)"
  have s1: "last_request_time ?s1 = last_request_time s"
    by (simp add: check_quota_limits_def Let_def)
  have dispatched: "last_request_time (state_after g) = dispatch_time clk
        \<and> prompts_sent g = [?p]
        \<and> (\<forall>error_str now.
              model ?p = Raises error_str
              \<and> \<not> ((\<exists>xs ys. error_str = xs @ ''429'' @ ys)
                     \<or> contains_ignoring_case ''quota'' error_str
                     \<or> contains_ignoring_case ''exceeded'' error_str)
              \<and> now < dispatch_time clk + 3 \<longrightarrow>
              fst (check_quota_limits now (state_after g)) =
                (False, Some (''Wait '' @ str_int \<lfloor>3 - (now - dispatch_time clk)\<rfloor>
                                @ ''s before next request.'')))"
    if mdl: "fst (get_generative_model svc key) = Some model" for model
  proof -
    note d = generate_dispatched [OF adm mdl, of content mcq_count short_count difficulty_level
        topic_focus]
    have t: "last_request_time (state_after g) = dispatch_time clk"
      by (simp add: g d Let_def record_request_def record_lockout_def split: api_outcome.splits)
    have p: "prompts_sent g = [?p]"
      by (simp add: g d Let_def split: api_outcome.splits)
    have n: "fst (check_quota_limits now (state_after g)) =
               (False, Some (''Wait '' @ str_int \<lfloor>3 - (now - dispatch_time clk)\<rfloor>
                               @ ''s before next request.''))"
      if e: "model ?p = Raises error_str"
        and nq: "\<not> ((\<exists>xs ys. error_str = xs @ ''429'' @ ys)
                     \<or> contains_ignoring_case ''quota'' error_str
                     \<or> contains_ignoring_case ''exceeded'' error_str)"
        and lt: "now < dispatch_time clk + 3" for error_str now
    proof -
      from nq is_quota_error_iff [of error_str] have nqe: "\<not> is_quota_error error_str"
        by blast
      have sa: "state_after g = record_request (dispatch_time clk) ?s1"
        by (simp add: g d Let_def e nqe)
      have "\<not> truthy_time (quota_reset_time ?s1)"
        by (rule admitted_not_truthy [OF adm])
      then have na: "\<not> lockout_active (state_after g) now"
        by (simp add: sa lockout_active_def record_request_def)
      have "0 \<le> 3 - (now - dispatch_time clk)"
        using lt by simp
      then show ?thesis
        using na lt t
        by (simp add: check_quota_limits_def lockout_active_def Let_def py_int_nonneg)
    qed
    from t p n show ?thesis by blast
  qed
  have not_dispatched: "prompts_sent g = [] \<and> last_request_time (state_after g) = last_request_time s"
    if nm: "fst (get_generative_model svc key) = None"
  proof -
    obtain b m s1' where c: "check_quota_limits (check_time clk) s = ((b, m), s1')"
      by (metis surj_pair)
    with adm have b: "b" by simp
    from c have s1': "s1' = ?s1" by simp
    obtain banners where gm: "get_generative_model svc key = (None, banners)"
      using nm by (metis prod.collapse)
    have "g = \<lparr>returned = None, state_after = s1', shown = banners, prompts_sent = []\<rparr>"
      by (simp add: g generate_questions_def c b gm)
    then show ?thesis by (simp add: s1' s1)
  qed
  from dispatched not_dispatched show ?thesis by blast
qed

theorem request_recorded_at_dispatch_witness:
  "last_request_time (state_after (generate_questions
        \<lparr>configure = (\<lambda>k. None), model_init = (\<lambda>k n. Some (\<lambda>p. Raises ''timeout''))\<rparr>
        \<lparr>check_time = 100, dispatch_time = 101, error_time = 102\<rparr>
        ''key'' ''text'' 5 3 ''Medium'' ''All topics'' initial_state)) = 101
   \<and> fst (check_quota_limits 103 (state_after (generate_questions
        \<lparr>configure = (\<lambda>k. None), model_init = (\<lambda>k n. Some (\<lambda>p. Raises ''timeout''))\<rparr>
        \<lparr>check_time = 100, dispatch_time = 101, error_time = 102\<rparr>
        ''key'' ''text'' 5 3 ''Medium'' ''All topics'' initial_state))) =
       (False, Some ''Wait 1s before next request.'')
   \<and> prompts_sent (generate_questions
        \<lparr>configure = (\<lambda>k. None), model_init = (\<lambda>k n. None)\<rparr>
        \<lparr>check_time = 100, dispatch_time = 101, error_time = 102\<rparr>
        ''key'' ''text'' 5 3 ''Medium'' ''All topics'' initial_state) = []
   \<and> last_request_time (state_after (generate_questions
        \<lparr>configure = (\<lambda>k. None), model_init = (\<lambda>k n. None)\<rparr>
        \<lparr>check_time = 100, dispatch_time = 101, error_time = 102\<rparr>
        ''key'' ''text'' 5 3 ''Medium'' ''All topics'' initial_state)) = 0"
proof -
  let ?clk = "\<lparr>check_time = 100, dispatch_time = 101, error_time = 102\<rparr>"
  let ?svc = "\<lparr>configure = (\<lambda>k. None), model_init = (\<lambda>k n. Some (\<lambda>p. Raises ''timeout''))\<rparr>"
  let ?none = "\<lparr>configure = (\<lambda>k. None), model_init = (\<lambda>k n. None)\<rparr>"
  have adm: "fst (fst (check_quota_limits (check_time ?clk) initial_state))"
    by (simp add: check_quota_limits_def initial_state_def truthy_time_def Let_def)
  have nq: "\<not> ((\<exists>xs ys. ''timeout'' = xs @ ''429'' @ ys)
              \<or> contains_ignoring_case ''quota'' ''timeout''
              \<or> contains_ignoring_case ''exceeded'' ''timeout'')"
  proof -
    have "\<not> substring_in ''429'' ''timeout''" by simp
    with substring_in_iff [of "''429''" "''timeout''"]
    have "\<not> (\<exists>xs ys. ''timeout'' = xs @ ''429'' @ ys)"
      by blast
    moreover have "\<not> contains_ignoring_case ''quota'' ''timeout''" by code_simp
    moreover have "\<not> contains_ignoring_case ''exceeded'' ''timeout''" by code_simp
    ultimately show ?thesis by blast
  qed
  have m: "fst (get_generative_model ?svc ''key'') = Some (\<lambda>p. Raises ''timeout'')"
    by (simp add: get_generative_model_def model_options_def)
  have nm: "fst (get_generative_model ?none ''key'') = None"
    by (simp add: get_generative_model_def model_options_def)
  have lt: "(103::real) < dispatch_time ?clk + 3"
    by simp
  note r = request_recorded_at_dispatch [where clk = ?clk and s = initial_state
        and key = "''key''" and content = "''text''" and mcq_count = 5 and short_count = 3
        and difficulty_level = "''Medium''" and topic_focus = "''All topics''",
        OF conjI [OF adm refl]]
  have a: "last_request_time (state_after (generate_questions ?svc ?clk ''key'' ''text'' 5 3
              ''Medium'' ''All topics'' initial_state)) = dispatch_time ?clk
      \<and> fst (check_quota_limits 103 (state_after (generate_questions ?svc ?clk ''key'' ''text'' 5 3
              ''Medium'' ''All topics'' initial_state))) =
          (False, Some (''Wait '' @ str_int \<lfloor>3 - (103 - dispatch_time ?clk)\<rfloor>
                          @ ''s before next request.''))"
    using r [of ?svc] m nq lt by blast
  have b: "prompts_sent (generate_questions ?none ?clk ''key'' ''text'' 5 3
              ''Medium'' ''All topics'' initial_state) = []
      \<and> last_request_time (state_after (generate_questions ?none ?clk ''key'' ''text'' 5 3
              ''Medium'' ''All topics'' initial_state)) = last_request_time initial_state"
    using r [of ?none] nm by blast
  from a b show ?thesis
    by (simp add: str_int_def str_nat.simps digit_char_def initial_state_def)
qed

section \<open>Properties of the saved contexts\<close>

lemma delete_loop_absent:
  "key \<notin> fst ` set items \<Longrightarrow> saved_contexts_loop (\<lambda>w. w = ''del_'' @ key) items s = s"
  by (induction items) auto

lemma delete_loop_present:
  "key \<in> fst ` set items \<Longrightarrow>
     saved_contexts_loop (\<lambda>w. w = ''del_'' @ key) items s =
       s\<lparr>conversation_history := AList.delete key (conversation_history s)\<rparr>"
proof (induction items)
  case Nil
  then show ?case by simp
next
  case (Cons p items)
  obtain k d where p: "p = (k, d)" by (cases p)
  show ?case
  proof (cases "k = key")
    case True
    with p show ?thesis by simp
  next
    case False
    with Cons.prems p have "key \<in> fst ` set items" by auto
    with Cons.IH False p show ?thesis by simp
  qed
qed

lemma load_loop:
  "map_of items key = Some e \<Longrightarrow>
     saved_contexts_loop (\<lambda>w. w = ''load_'' @ key) items s =
       s\<lparr>current_context := entry_content e, current_file_name := entry_file e\<rparr>"
  by (induction items) (auto split: if_splits)

lemma delete_absent_alist: "key \<notin> fst ` set al \<Longrightarrow> AList.delete key al = al"
  by (induction al) (auto simp add: AList.delete_eq)

lemma length_delete_distinct:
  "distinct (map fst al) \<Longrightarrow> key \<in> fst ` set al \<Longrightarrow> Suc (length (AList.delete key al)) = length al"
proof (induction al)
  case Nil
  then show ?case by simp
next
  case (Cons p al)
  obtain k d where p: "p = (k, d)" by (cases p)
  show ?case
  proof (cases "k = key")
    case True
    with Cons.prems p have "key \<notin> fst ` set al" by auto
    then have "AList.delete key al = al" by (rule delete_absent_alist)
    with True p show ?thesis by (simp add: AList.delete_eq)
  next
    case False
    with Cons.prems p have "key \<in> fst ` set al" and "distinct (map fst al)" by auto
    with Cons.IH have "Suc (length (AList.delete key al)) = length al" by simp
    with False p show ?thesis by (simp add: AList.delete_eq)
  qed
qed

text \<open>
  C7. Deleting a key that is not among the saved contexts leaves the whole session state as
  it is; deleting a key that is there removes the entry of that key and no other, one entry
  in all; and deleting the same key a second time changes nothing more.
\<close>

theorem delete_idempotent:
  "(key \<notin> fst ` set (conversation_history s) \<longrightarrow> delete_context key s = s)
   \<and> (key \<in> fst ` set (conversation_history s) \<longrightarrow>
        delete_context key s = s\<lparr>conversation_history := AList.delete key (conversation_history s)\<rparr>
        \<and> saved_entry (delete_context key s) = (saved_entry s)(key := None)
        \<and> (distinct (map fst (conversation_history s)) \<longrightarrow>
              Suc (length (conversation_history (delete_context key s)))
                = length (conversation_history s)))
   \<and> delete_context key (delete_context key s) = delete_context key s"
proof -
  have a: "delete_context key s = s" if "key \<notin> fst ` set (conversation_history s)" for s
    using that delete_loop_absent [of key "conversation_history s" s]
    by (simp add: delete_context_def saved_contexts_panel_def)
  have b: "delete_context key s = s\<lparr>conversation_history := AList.delete key (conversation_history s)\<rparr>"
    if "key \<in> fst ` set (conversation_history s)"
    using that delete_loop_present [of key "conversation_history s" s]
    by (auto simp add: delete_context_def saved_contexts_panel_def)
  have gone: "key \<notin> fst ` set (AList.delete key al)" for al :: "(string \<times> saved_context) list"
    by (simp add: AList.delete_eq image_iff)
  have c: "delete_context key (delete_context key s) = delete_context key s"
  proof (cases "key \<in> fst ` set (conversation_history s)")
    case True
    have "key \<notin> fst ` set (conversation_history (delete_context key s))"
      by (simp add: b [OF True] gone)
    then show ?thesis by (rule a)
  next
    case False
    then show ?thesis by (simp add: a)
  qed
  have d: "saved_entry (delete_context key s) = (saved_entry s)(key := None)"
    if "key \<in> fst ` set (conversation_history s)"
    by (rule ext) (simp add: b [OF that] saved_entry_def delete_conv)
  have e: "Suc (length (conversation_history (delete_context key s))) = length (conversation_history s)"
    if "key \<in> fst ` set (conversation_history s)" and "distinct (map fst (conversation_history s))"
    using that by (simp add: b length_delete_distinct)
  from a b c d e show ?thesis by blast
qed


theorem delete_idempotent_witness:
  "delete_context ''b.txt_10:00:00''
     (initial_state\<lparr>conversation_history :=
        [(''a.txt_09:00:00'',
          \<lparr>entry_file = Some ''a.txt'', entry_content = ''abc'',
           entry_timestamp = ''2024-01-01 09:00:00'', entry_size = ''0.0 KB''\<rparr>)]\<rparr>) =
     initial_state\<lparr>conversation_history :=
        [(''a.txt_09:00:00'',
          \<lparr>entry_file = Some ''a.txt'', entry_content = ''abc'',
           entry_timestamp = ''2024-01-01 09:00:00'', entry_size = ''0.0 KB''\<rparr>)]\<rparr>
   \<and> conversation_history (delete_context ''a.txt_09:00:00''
     (initial_state\<lparr>conversation_history :=
        [(''a.txt_09:00:00'',
          \<lparr>entry_file = Some ''a.txt'', entry_content = ''abc'',
           entry_timestamp = ''2024-01-01 09:00:00'', entry_size = ''0.0 KB''\<rparr>)]\<rparr>)) = []"
  using delete_idempotent [of "''b.txt_10:00:00''"
      "initial_state\<lparr>conversation_history :=
        [(''a.txt_09:00:00'',
          \<lparr>entry_file = Some ''a.txt'', entry_content = ''abc'',
           entry_timestamp = ''2024-01-01 09:00:00'', entry_size = ''0.0 KB''\<rparr>)]\<rparr>"]
    delete_idempotent [of "''a.txt_09:00:00''"
      "initial_state\<lparr>conversation_history :=
        [(''a.txt_09:00:00'',
          \<lparr>entry_file = Some ''a.txt'', entry_content = ''abc'',
           entry_timestamp = ''2024-01-01 09:00:00'', entry_size = ''0.0 KB''\<rparr>)]\<rparr>"]
  by (simp add: initial_state_def AList.delete_eq)

lemma saved_entry_save:
  "strip (current_context s) \<noteq> [] \<Longrightarrow>
     saved_entry (save_context now_key now_stamp s) =
       (saved_entry s)(context_key (current_file_name s) now_key \<mapsto>
          \<lparr>entry_file = current_file_name s, entry_content = current_context s,
           entry_timestamp = strftime_full now_stamp,
           entry_size = format_kb (length (current_context s))\<rparr>)"
  by (rule ext) (simp add: save_context_def saved_entry_def update_conv')

lemma save_frame:
  "current_context (save_context now_key now_stamp s) = current_context s
   \<and> current_file_name (save_context now_key now_stamp s) = current_file_name s"
  by (simp add: save_context_def)

lemma sidebar_api_key_history:
  "conversation_history (sidebar_api_key key_input s) = conversation_history s"
  by (simp add: sidebar_api_key_def)

lemma main_content_history:
  "conversation_history (main_content uploaded s) = conversation_history s"
  by (simp add: main_content_def upload_def split: option.splits)

lemma rerun_requested_load:
  "map_of (conversation_history s) key = Some e \<Longrightarrow>
     rerun_requested (\<lambda>widget. widget = ''load_'' @ key) s"
proof -
  assume "map_of (conversation_history s) key = Some e"
  then have "(key, e) \<in> set (conversation_history s)" by (rule map_of_SomeD)
  then show ?thesis
    by (auto simp add: rerun_requested_def list_ex_iff)
qed

text \<open>
  What pressing Load does: the entry is copied into the working text and file name, and the
  run started by \<^verbatim>\<open>st.rerun()\<close> then passes through the upload section again.
\<close>

lemma load_context_result:
  assumes "saved_entry s key = Some e"
  shows "load_context w key s =
     main_content (uploader w)
       ((sidebar_api_key (api_key_input w) s)
          \<lparr>current_context := entry_content e, current_file_name := entry_file e\<rparr>)"
proof -
  let ?s0 = "sidebar_api_key (api_key_input w) s"
  let ?s1 = "?s0\<lparr>current_context := entry_content e, current_file_name := entry_file e\<rparr>"
  from assms have m: "map_of (conversation_history ?s0) key = Some e"
    by (simp add: saved_entry_def sidebar_api_key_history)
  then have ne: "conversation_history ?s0 \<noteq> []" by auto
  have panel: "saved_contexts_panel (\<lambda>widget. widget = ''load_'' @ key) ?s0 = ?s1"
    using load_loop [OF m, of ?s0] ne by (simp add: saved_contexts_panel_def)
  have again: "sidebar_api_key (api_key_input w) ?s1 = ?s1"
    by (simp add: sidebar_api_key_def)
  have "load_context w key s = quiet_run w ?s1"
    using rerun_requested_load [OF m] panel
    by (simp add: load_context_def panel_run_def Let_def del: append.simps)
  then show ?thesis
    by (simp only: quiet_run_def again)
qed

lemma load_context_without_upload:
  "saved_entry s key = Some e \<Longrightarrow> uploader w = None \<Longrightarrow>
     current_context (load_context w key s) = entry_content e
     \<and> current_file_name (load_context w key s) = entry_file e
     \<and> conversation_history (load_context w key s) = conversation_history s"
  by (simp add: load_context_result main_content_def upload_def sidebar_api_key_def
      split: option.splits)

text \<open>
  C9 at a failing input. The text \<open>alpha\<close> of \<open>a.txt\<close> is saved, \<open>b.txt\<close> with the text \<open>beta\<close>
  is put into the uploader, and Load is pressed for the saved entry: the entry still holds
  \<open>alpha\<close>, but the working text and file name afterwards are those of \<open>b.txt\<close>, since the
  run that Load starts installs the file of the uploader again.
\<close>

theorem load_overwritten_by_upload:
  "map_option entry_content
     (saved_entry
        (upload
           (Some \<lparr>name = ''b.txt'', pdf_pages = ParseError [], docx_body = ParseError [],
                  txt_decoded = Parsed ''beta'', csv_dump = ParseError [],
                  excel_sheets = ParseError []\<rparr>)
           (save_context
              \<lparr>year = 2024, month = 3, day = 9, hour = 10, minute = 5, second = 9\<rparr>
              \<lparr>year = 2024, month = 3, day = 9, hour = 10, minute = 5, second = 9\<rparr>
              (initial_state\<lparr>api_key := Some ''k'', current_context := ''alpha'',
                 current_file_name := Some ''a.txt''\<rparr>)))
        (context_key (Some ''a.txt'')
           \<lparr>year = 2024, month = 3, day = 9, hour = 10, minute = 5, second = 9\<rparr>))
     = Some ''alpha''
   \<and> current_context
       (load_context
          \<lparr>api_key_input = ''k'',
           uploader = Some \<lparr>name = ''b.txt'', pdf_pages = ParseError [],
                            docx_body = ParseError [], txt_decoded = Parsed ''beta'',
                            csv_dump = ParseError [], excel_sheets = ParseError []\<rparr>\<rparr>
          (context_key (Some ''a.txt'')
             \<lparr>year = 2024, month = 3, day = 9, hour = 10, minute = 5, second = 9\<rparr>)
          (upload
             (Some \<lparr>name = ''b.txt'', pdf_pages = ParseError [], docx_body = ParseError [],
                    txt_decoded = Parsed ''beta'', csv_dump = ParseError [],
                    excel_sheets = ParseError []\<rparr>)
             (save_context
                \<lparr>year = 2024, month = 3, day = 9, hour = 10, minute = 5, second = 9\<rparr>
                \<lparr>year = 2024, month = 3, day = 9, hour = 10, minute = 5, second = 9\<rparr>
                (initial_state\<lparr>api_key := Some ''k'', current_context := ''alpha'',
                   current_file_name := Some ''a.txt''\<rparr>))))
     = ''beta''
   \<and> current_file_name
       (load_context
          \<lparr>api_key_input = ''k'',
           uploader = Some \<lparr>name = ''b.txt'', pdf_pages = ParseError [],
                            docx_body = ParseError [], txt_decoded = Parsed ''beta'',
                            csv_dump = ParseError [], excel_sheets = ParseError []\<rparr>\<rparr>
          (context_key (Some ''a.txt'')
             \<lparr>year = 2024, month = 3, day = 9, hour = 10, minute = 5, second = 9\<rparr>)
          (upload
             (Some \<lparr>name = ''b.txt'', pdf_pages = ParseError [], docx_body = ParseError [],
                    txt_decoded = Parsed ''beta'', csv_dump = ParseError [],
                    excel_sheets = ParseError []\<rparr>)
             (save_context
                \<lparr>year = 2024, month = 3, day = 9, hour = 10, minute = 5, second = 9\<rparr>
                \<lparr>year = 2024, month = 3, day = 9, hour = 10, minute = 5, second = 9\<rparr>
                (initial_state\<lparr>api_key := Some ''k'', current_context := ''alpha'',
                   current_file_name := Some ''a.txt''\<rparr>))))
     = Some ''b.txt''"
proof -
  let ?d = "\<lparr>year = 2024, month = 3, day = 9, hour = 10, minute = 5, second = 9\<rparr>"
  let ?fb = "\<lparr>name = ''b.txt'', pdf_pages = ParseError [], docx_body = ParseError [],
                  txt_decoded = Parsed ''beta'', csv_dump = ParseError [],
                  excel_sheets = ParseError []\<rparr>"
  let ?sa = "initial_state\<lparr>api_key := Some ''k'', current_context := ''alpha'',
                 current_file_name := Some ''a.txt''\<rparr>"
  let ?key = "context_key (Some ''a.txt'') ?d"
  let ?e = "\<lparr>entry_file = Some ''a.txt'', entry_content = ''alpha'',
             entry_timestamp = strftime_full ?d, entry_size = format_kb (length ''alpha'')\<rparr>"
  have x: "extract_text ?fb = Some ''beta''"
    by (simp add: extract_text_def processors_def last_component_def lower_def lower_char_def
        read_txt_def strip_def is_space_def whitespace_chars_def Let_def)
  have sv: "save_context ?d ?d ?sa = ?sa\<lparr>conversation_history := [(?key, ?e)]\<rparr>"
    by (simp add: save_context_def strip_def is_space_def whitespace_chars_def
        initial_state_def)
  have s2: "upload (Some ?fb) (save_context ?d ?d ?sa) =
      ?sa\<lparr>conversation_history := [(?key, ?e)], current_context := ''beta'',
          current_file_name := Some ''b.txt''\<rparr>"
    by (simp add: upload_def x sv)
  have en: "saved_entry (upload (Some ?fb) (save_context ?d ?d ?sa)) ?key = Some ?e"
    by (simp add: s2 saved_entry_def)
  have ld: "load_context \<lparr>api_key_input = ''k'', uploader = Some ?fb\<rparr> ?key
        (upload (Some ?fb) (save_context ?d ?d ?sa)) =
      ?sa\<lparr>conversation_history := [(?key, ?e)], current_context := ''beta'',
          current_file_name := Some ''b.txt''\<rparr>"
    by (subst load_context_result [OF en], subst s2)
      (simp add: main_content_def sidebar_api_key_def upload_def x)
  show ?thesis
    by (simp add: en ld)
qed

lemma digit_char_inj: "a < 10 \<Longrightarrow> b < 10 \<Longrightarrow> digit_char a = digit_char b \<Longrightarrow> a = b"
proof -
  assume a: "a < 10" and b: "b < 10" and e: "digit_char a = digit_char b"
  have d: "distinct ''0123456789''" by simp
  have "a < length ''0123456789''" and "b < length ''0123456789''"
    using a b by simp_all
  with d e show ?thesis
    unfolding digit_char_def by (simp only: nth_eq_iff_index_eq)
qed

lemma zero_pad_2: "n < 100 \<Longrightarrow> zero_pad 2 n = [digit_char (n div 10), digit_char (n mod 10)]"
proof (cases "n < 10")
  case True
  then have "str_nat n = [digit_char n]" by (simp add: str_nat.simps)
  moreover have "digit_char 0 = CHR ''0''" by (simp add: digit_char_def)
  ultimately show ?thesis using True by (simp add: zero_pad_def)
next
  case False
  assume "n < 100"
  then have "n div 10 < 10" by simp
  then have "str_nat (n div 10) = [digit_char (n div 10)]" by (simp add: str_nat.simps)
  with False have "str_nat n = [digit_char (n div 10), digit_char (n mod 10)]"
    by (subst str_nat.simps) simp
  then show ?thesis by (simp add: zero_pad_def)
qed

lemma zero_pad_2_inj: "a < 100 \<Longrightarrow> b < 100 \<Longrightarrow> zero_pad 2 a = zero_pad 2 b \<Longrightarrow> a = b"
proof -
  assume a: "a < 100" and b: "b < 100" and e: "zero_pad 2 a = zero_pad 2 b"
  from e have q: "digit_char (a div 10) = digit_char (b div 10)"
    and r: "digit_char (a mod 10) = digit_char (b mod 10)"
    by (simp_all add: zero_pad_2 a b)
  have "a div 10 < 10" and "b div 10 < 10"
    using a b by simp_all
  then have "a div 10 = b div 10"
    using q by (rule digit_char_inj)
  moreover have "a mod 10 < 10" and "b mod 10 < 10"
    by simp_all
  then have "a mod 10 = b mod 10"
    using r by (rule digit_char_inj)
  ultimately show ?thesis by (metis div_mult_mod_eq)
qed

lemma strftime_hms_inj:
  "valid_time d1 \<Longrightarrow> valid_time d2 \<Longrightarrow> strftime_hms d1 = strftime_hms d2 \<Longrightarrow>
     time_of_day d1 = time_of_day d2"
proof -
  assume v1: "valid_time d1" and v2: "valid_time d2" and e: "strftime_hms d1 = strftime_hms d2"
  from v1 v2 have b: "hour d1 < 100" "minute d1 < 100" "second d1 < 100"
    "hour d2 < 100" "minute d2 < 100" "second d2 < 100"
    by (simp_all add: valid_time_def)
  from e have "zero_pad 2 (hour d1) = zero_pad 2 (hour d2)
      \<and> zero_pad 2 (minute d1) = zero_pad 2 (minute d2)
      \<and> zero_pad 2 (second d1) = zero_pad 2 (second d2)"
    by (simp add: strftime_hms_def zero_pad_2 b)
  with b show ?thesis
    by (auto simp add: time_of_day_def dest: zero_pad_2_inj)
qed

lemma context_key_eq_iff:
  "valid_time d1 \<Longrightarrow> valid_time d2 \<Longrightarrow>
     context_key f d1 = context_key f d2 \<longleftrightarrow> time_of_day d1 = time_of_day d2"
proof
  assume v: "valid_time d1" "valid_time d2" and "context_key f d1 = context_key f d2"
  then have "strftime_hms d1 = strftime_hms d2" by (simp add: context_key_def)
  with v show "time_of_day d1 = time_of_day d2" by (rule strftime_hms_inj)
next
  assume "time_of_day d1 = time_of_day d2"
  then show "context_key f d1 = context_key f d2"
    by (simp add: time_of_day_def context_key_def strftime_hms_def)
qed


text \<open>
  C6, as the code has it. The key is the file name and the time of day to the second. Two
  saves under the same file name get distinct keys exactly when their times of day differ,
  and then both entries are in the store after the second save.
\<close>

theorem saves_distinct_keys:
  "strip (current_context s) \<noteq> [] \<and> strip (current_context s') \<noteq> []
   \<and> current_file_name s' = current_file_name s
   \<and> conversation_history s' = conversation_history (save_context d1 t1 s)
   \<and> valid_time d1 \<and> valid_time d2
   \<Longrightarrow>
     (context_key (current_file_name s) d1 \<noteq> context_key (current_file_name s') d2
        \<longleftrightarrow> time_of_day d1 \<noteq> time_of_day d2)
     \<and> (time_of_day d1 \<noteq> time_of_day d2 \<longrightarrow>
          saved_entry (save_context d2 t2 s') (context_key (current_file_name s) d1) =
            Some \<lparr>entry_file = current_file_name s, entry_content = current_context s,
                  entry_timestamp = strftime_full t1,
                  entry_size = format_kb (length (current_context s))\<rparr>
          \<and> saved_entry (save_context d2 t2 s') (context_key (current_file_name s') d2) =
            Some \<lparr>entry_file = current_file_name s', entry_content = current_context s',
                  entry_timestamp = strftime_full t2,
                  entry_size = format_kb (length (current_context s'))\<rparr>)"
proof -
  assume h: "strip (current_context s) \<noteq> [] \<and> strip (current_context s') \<noteq> []
   \<and> current_file_name s' = current_file_name s
   \<and> conversation_history s' = conversation_history (save_context d1 t1 s)
   \<and> valid_time d1 \<and> valid_time d2"
  then have ns: "strip (current_context s) \<noteq> []" and ns': "strip (current_context s') \<noteq> []"
    and f: "current_file_name s' = current_file_name s"
    and hist: "conversation_history s' = conversation_history (save_context d1 t1 s)"
    and v1: "valid_time d1" and v2: "valid_time d2"
    by simp_all
  let ?k1 = "context_key (current_file_name s) d1"
  let ?k2 = "context_key (current_file_name s') d2"
  have keys: "?k1 \<noteq> ?k2 \<longleftrightarrow> time_of_day d1 \<noteq> time_of_day d2"
    by (simp add: f context_key_eq_iff [OF v1 v2])
  have first: "saved_entry s' ?k1 =
            Some \<lparr>entry_file = current_file_name s, entry_content = current_context s,
                  entry_timestamp = strftime_full t1,
                  entry_size = format_kb (length (current_context s))\<rparr>"
  proof -
    have "saved_entry s' ?k1 = saved_entry (save_context d1 t1 s) ?k1"
      by (simp add: saved_entry_def hist)
    then show ?thesis by (simp add: saved_entry_save [OF ns])
  qed
  have kept: "saved_entry (save_context d2 t2 s') ?k1 = saved_entry s' ?k1"
    if "time_of_day d1 \<noteq> time_of_day d2"
    using that keys by (simp add: saved_entry_save [OF ns'])
  have second: "saved_entry (save_context d2 t2 s') ?k2 =
            Some \<lparr>entry_file = current_file_name s', entry_content = current_context s',
                  entry_timestamp = strftime_full t2,
                  entry_size = format_kb (length (current_context s'))\<rparr>"
    by (simp add: saved_entry_save [OF ns'])
  from keys first kept second show ?thesis by simp
qed

theorem saves_distinct_keys_witness:
  "saved_entry
     (save_context
        \<lparr>year = 2024, month = 3, day = 9, hour = 10, minute = 5, second = 10\<rparr>
        \<lparr>year = 2024, month = 3, day = 9, hour = 10, minute = 5, second = 10\<rparr>
        ((save_context
           \<lparr>year = 2024, month = 3, day = 9, hour = 10, minute = 5, second = 9\<rparr>
           \<lparr>year = 2024, month = 3, day = 9, hour = 10, minute = 5, second = 9\<rparr>
           (initial_state\<lparr>current_context := ''first'', current_file_name := Some ''a.txt''\<rparr>))
         \<lparr>current_context := ''second''\<rparr>))
     (context_key (Some ''a.txt'')
        \<lparr>year = 2024, month = 3, day = 9, hour = 10, minute = 5, second = 9\<rparr>) =
     Some \<lparr>entry_file = Some ''a.txt'', entry_content = ''first'',
           entry_timestamp =
             strftime_full \<lparr>year = 2024, month = 3, day = 9, hour = 10, minute = 5, second = 9\<rparr>,
           entry_size = format_kb (length ''first'')\<rparr>"
proof -
  let ?d1 = "\<lparr>year = 2024, month = 3, day = 9, hour = 10, minute = 5, second = 9\<rparr>"
  let ?d2 = "\<lparr>year = 2024, month = 3, day = 9, hour = 10, minute = 5, second = 10\<rparr>"
  let ?s = "initial_state\<lparr>current_context := ''first'', current_file_name := Some ''a.txt''\<rparr>"
  let ?s' = "(save_context ?d1 ?d1 ?s)\<lparr>current_context := ''second''\<rparr>"
  have h: "strip (current_context ?s) \<noteq> [] \<and> strip (current_context ?s') \<noteq> []
   \<and> current_file_name ?s' = current_file_name ?s
   \<and> conversation_history ?s' = conversation_history (save_context ?d1 ?d1 ?s)
   \<and> valid_time ?d1 \<and> valid_time ?d2"
    by (simp add: strip_def is_space_def whitespace_chars_def valid_time_def save_context_def)
  have t: "time_of_day ?d1 \<noteq> time_of_day ?d2"
    by (simp add: time_of_day_def)
  from saves_distinct_keys [OF h, where ?t2.0 = ?d2] t
  have "saved_entry (save_context ?d2 ?d2 ?s') (context_key (current_file_name ?s) ?d1) =
            Some \<lparr>entry_file = current_file_name ?s, entry_content = current_context ?s,
                  entry_timestamp = strftime_full ?d1,
                  entry_size = format_kb (length (current_context ?s))\<rparr>"
    by blast
  then show ?thesis by simp
qed

text \<open>
  C6, as stated, fails: two saves of the same file name within one second share their key,
  and the store is left with the second text only.
\<close>

theorem same_second_overwrites_counterexample:
  "map (\<lambda>(k, e). entry_content e)
     (conversation_history
        (save_context
           \<lparr>year = 2024, month = 3, day = 9, hour = 10, minute = 5, second = 9\<rparr>
           \<lparr>year = 2024, month = 3, day = 9, hour = 10, minute = 5, second = 9\<rparr>
           ((save_context
              \<lparr>year = 2024, month = 3, day = 9, hour = 10, minute = 5, second = 9\<rparr>
              \<lparr>year = 2024, month = 3, day = 9, hour = 10, minute = 5, second = 9\<rparr>
              (initial_state\<lparr>current_context := ''first'', current_file_name := Some ''a.txt''\<rparr>))
            \<lparr>current_context := ''second''\<rparr>))) = [''second'']"
  by (simp add: save_context_def strip_def is_space_def whitespace_chars_def initial_state_def)

section \<open>Properties of text extraction\<close>

lemma strip_idem: "strip (strip s) = strip s"
proof -
  let ?u = "dropWhile is_space s"
  let ?w = "dropWhile is_space (rev ?u)"
  have v: "strip s = rev ?w" by (simp add: strip_def)
  have u: "?u = rev ?w @ rev (takeWhile is_space (rev ?u))"
    by (metis rev_append rev_rev_ident takeWhile_dropWhile_id)
  have front: "dropWhile is_space (rev ?w) = rev ?w"
  proof (cases "rev ?w = []")
    case True
    then show ?thesis by (metis dropWhile.simps(1))
  next
    case False
    with u have "hd (rev ?w) = hd ?u" by (metis hd_append2)
    moreover have "?u \<noteq> []"
    proof
      assume "?u = []"
      then have "rev ?w = rev (dropWhile is_space (rev []))" by (simp only:)
      with False show False by simp
    qed
    then have "\<not> is_space (hd ?u)" by (rule hd_dropWhile)
    ultimately show ?thesis by (simp add: dropWhile_eq_self_iff)
  qed
  have "strip (rev ?w) = rev (dropWhile is_space (rev (rev ?w)))"
    by (simp only: strip_def front)
  also have "\<dots> = rev ?w" by simp
  finally show ?thesis by (simp only: v)
qed

lemma strip_blank: "\<forall>c \<in> set s. is_space c \<Longrightarrow> strip s = []"
proof -
  assume "\<forall>c \<in> set s. is_space c"
  then have "dropWhile is_space s = []" by simp
  then have "strip s = rev (dropWhile is_space (rev []))" by (simp only: strip_def)
  then show ?thesis by simp
qed

lemma extract_text_stripped:
  assumes "lower (last_component (name f)) \<in> {''pdf'', ''docx'', ''txt'', ''xls'', ''xlsx''}"
    and "extract_text f = Some t"
  shows "strip t = t"
proof -
  from assms(1) have "extract_text f = read_pdf f \<or> extract_text f = read_docx f
      \<or> extract_text f = read_txt f \<or> extract_text f = read_excel f"
    by (auto simp add: extract_text_def processors_def Let_def)
  with assms(2) have "read_pdf f = Some t \<or> read_docx f = Some t \<or> read_txt f = Some t
      \<or> read_excel f = Some t"
    by auto
  then show ?thesis
    by (auto simp add: read_pdf_def read_docx_def read_txt_def read_excel_def strip_idem
        split: parsed.splits prod.splits)
qed

text \<open>
  The readers that strip. For a PDF, DOCX, TXT or Excel file the extracted text is already
  stripped, so it is empty or has a character that is not white space; the caller leaves the
  session state alone when the extraction gives \<open>None\<close> and equally when it gives the empty
  string, so a text file of white space only is never installed.
\<close>

lemma stripping_readers_blank_not_installed:
  "(lower (last_component (name f)) \<in> {''pdf'', ''docx'', ''txt'', ''xls'', ''xlsx''} \<longrightarrow>
      (\<forall>t. extract_text f = Some t \<longrightarrow> strip t = t)
      \<and> (upload (Some f) s = s
          \<or> strip (current_context (upload (Some f) s)) \<noteq> []
            \<and> extract_text f = Some (current_context (upload (Some f) s))))
   \<and> (lower (last_component (name f)) = ''txt'' \<longrightarrow>
        (\<forall>raw. txt_decoded f = Parsed raw \<and> (\<forall>c \<in> set raw. is_space c) \<longrightarrow>
           extract_text f = Some [] \<and> upload (Some f) s = s))
   \<and> (lower (last_component (name f)) = ''csv'' \<longrightarrow>
        extract_text f = (case csv_dump f of ParseError e \<Rightarrow> None | Parsed dump \<Rightarrow> Some dump))
   \<and> (extract_text f = None \<or> extract_text f = Some [] \<longrightarrow> upload (Some f) s = s)"
proof -
  let ?ty = "lower (last_component (name f))"
  have a: "strip t = t"
    if "?ty \<in> {''pdf'', ''docx'', ''txt'', ''xls'', ''xlsx''}" and "extract_text f = Some t" for t
    using that by (rule extract_text_stripped)
  have d: "upload (Some f) s = s" if "extract_text f = None \<or> extract_text f = Some []"
    using that by (auto simp add: upload_def)
  have b: "upload (Some f) s = s
          \<or> strip (current_context (upload (Some f) s)) \<noteq> []
            \<and> extract_text f = Some (current_context (upload (Some f) s))"
    if ty: "?ty \<in> {''pdf'', ''docx'', ''txt'', ''xls'', ''xlsx''}"
  proof (cases "extract_text f")
    case None
    then show ?thesis by (simp add: d)
  next
    case (Some t)
    show ?thesis
    proof (cases "t = []")
      case True
      with Some show ?thesis by (simp add: d)
    next
      case False
      from ty Some have "strip t = t" by (rule a)
      with False Some show ?thesis by (simp add: upload_def)
    qed
  qed
  have c: "extract_text f = Some [] \<and> upload (Some f) s = s"
    if "?ty = ''txt''" and "txt_decoded f = Parsed raw \<and> (\<forall>c \<in> set raw. is_space c)" for raw
  proof -
    from that have "extract_text f = Some (strip raw)"
      by (simp add: extract_text_def processors_def Let_def read_txt_def)
    moreover from that have "strip raw = []" by (simp add: strip_blank)
    ultimately show ?thesis by (simp add: d)
  qed
  have e: "extract_text f = (case csv_dump f of ParseError e \<Rightarrow> None | Parsed dump \<Rightarrow> Some dump)"
    if "?ty = ''csv''"
    using that by (simp add: extract_text_def processors_def Let_def read_csv_def)
  from a b c d e show ?thesis by blast
qed


lemma stripping_readers_blank_not_installed_example:
  "extract_text
     \<lparr>name = ''notes.TXT'', pdf_pages = ParseError [], docx_body = ParseError [],
      txt_decoded = Parsed ''  \<newline> '', csv_dump = ParseError [], excel_sheets = ParseError []\<rparr>
     = Some []
   \<and> upload
       (Some \<lparr>name = ''notes.TXT'', pdf_pages = ParseError [], docx_body = ParseError [],
              txt_decoded = Parsed ''  \<newline> '', csv_dump = ParseError [],
              excel_sheets = ParseError []\<rparr>)
       (initial_state\<lparr>current_context := ''old'', current_file_name := Some ''old.txt''\<rparr>)
     = initial_state\<lparr>current_context := ''old'', current_file_name := Some ''old.txt''\<rparr>
   \<and> upload
       (Some \<lparr>name = ''notes.zip'', pdf_pages = ParseError [], docx_body = ParseError [],
              txt_decoded = Parsed ''abc'', csv_dump = ParseError [],
              excel_sheets = ParseError []\<rparr>)
       (initial_state\<lparr>current_context := ''old'', current_file_name := Some ''old.txt''\<rparr>)
     = initial_state\<lparr>current_context := ''old'', current_file_name := Some ''old.txt''\<rparr>"
proof -
  let ?f = "\<lparr>name = ''notes.TXT'', pdf_pages = ParseError [], docx_body = ParseError [],
      txt_decoded = Parsed ''  \<newline> '', csv_dump = ParseError [], excel_sheets = ParseError []\<rparr>"
  let ?g = "\<lparr>name = ''notes.zip'', pdf_pages = ParseError [], docx_body = ParseError [],
      txt_decoded = Parsed ''abc'', csv_dump = ParseError [], excel_sheets = ParseError []\<rparr>"
  let ?s = "initial_state\<lparr>current_context := ''old'', current_file_name := Some ''old.txt''\<rparr>"
  have ty: "lower (last_component (name ?f)) = ''txt''"
    by code_simp
  have ws: "txt_decoded ?f = Parsed ''  \<newline> '' \<and> (\<forall>c \<in> set ''  \<newline> ''. is_space c)"
    by (simp add: is_space_def whitespace_chars_def)
  have none: "extract_text ?g = None"
    by code_simp
  from stripping_readers_blank_not_installed [of ?f ?s] ty ws
  have "extract_text ?f = Some [] \<and> upload (Some ?f) ?s = ?s"
    by blast
  moreover from stripping_readers_blank_not_installed [of ?g ?s] none
  have "upload (Some ?g) ?s = ?s"
    by blast
  ultimately show ?thesis by simp
qed

text \<open>
  C10 at a failing input. The CSV reader alone returns its text without stripping it: the
  dump of a table with the columns \<open>a\<close> and \<open>b\<close> and one row starts with spaces, and it is
  returned and installed with them.
\<close>

theorem read_csv_not_stripped:
  "extract_text
     \<lparr>name = ''table.csv'', pdf_pages = ParseError [], docx_body = ParseError [],
      txt_decoded = ParseError [], csv_dump = Parsed ''   a  b\<newline>0  1  2'',
      excel_sheets = ParseError []\<rparr>
     = Some ''   a  b\<newline>0  1  2''
   \<and> strip ''   a  b\<newline>0  1  2'' \<noteq> ''   a  b\<newline>0  1  2''
   \<and> current_context
       (upload
          (Some \<lparr>name = ''table.csv'', pdf_pages = ParseError [], docx_body = ParseError [],
                 txt_decoded = ParseError [], csv_dump = Parsed ''   a  b\<newline>0  1  2'',
                 excel_sheets = ParseError []\<rparr>)
          initial_state)
     = ''   a  b\<newline>0  1  2''"
  by (simp add: extract_text_def upload_def processors_def last_component_def lower_def
      lower_char_def read_csv_def strip_def is_space_def whitespace_chars_def Let_def)

end
